theory Spec2Isabelle
  imports Main "HOL-Library.AList" "HOL-Library.List_Lexorder" "HOL-Library.Char_ord"
    "HOL-Library.Multiset"
begin

section \<open>Strings\<close>

text \<open>
  The program is Python; its \<open>str\<close> is a sequence of code points.  The model uses
  \<^typ>\<open>string\<close>, one \<^typ>\<open>char\<close> per code point, so the alphabet of the model is
  U+0000 .. U+00FF.  The character classes below are Python's, cut to that range.
\<close>

definition isspace :: "char \<Rightarrow> bool" where
  \<comment> \<open>\<open>str.isspace\<close> for one character; also the class \<open>\s\<close> of \<open>re\<close> on \<open>str\<close> patterns.\<close>
  "isspace c = (c \<in> set [CHR 0x09, CHR 0x0A, CHR 0x0B, CHR 0x0C, CHR 0x0D,
                          CHR 0x1C, CHR 0x1D, CHR 0x1E, CHR 0x1F, CHR 0x20,
                          CHR 0x85, CHR 0xA0])"

definition lstrip :: "string \<Rightarrow> string" where
  "lstrip s = dropWhile isspace s"

definition rstrip :: "string \<Rightarrow> string" where
  "rstrip s = rev (dropWhile isspace (rev s))"

definition strip :: "string \<Rightarrow> string" where
  "strip s = lstrip (rstrip s)"

definition strip_chars :: "string \<Rightarrow> string \<Rightarrow> string" where
  \<comment> \<open>\<open>s.strip(chars)\<close>\<close>
  "strip_chars s chars =
     rev (dropWhile (\<lambda>c. c \<in> set chars) (rev (dropWhile (\<lambda>c. c \<in> set chars) s)))"

definition startswith :: "string \<Rightarrow> string \<Rightarrow> bool" where
  "startswith s p = (take (length p) s = p)"

definition endswith :: "string \<Rightarrow> string \<Rightarrow> bool" where
  "endswith s p = (length p \<le> length s \<and> drop (length s - length p) s = p)"

fun contains :: "string \<Rightarrow> string \<Rightarrow> bool" where
  \<comment> \<open>\<open>sub in s\<close>\<close>
  "contains [] sub = (sub = [])"
| "contains (c # cs) sub = (startswith (c # cs) sub \<or> contains cs sub)"

fun partition_at :: "string \<Rightarrow> string \<Rightarrow> (string \<times> string) option" where
  \<comment> \<open>the text before and after the leftmost occurrence of \<open>sep\<close>, if there is one\<close>
  "partition_at [] sep = None"
| "partition_at (c # cs) sep =
     (if startswith (c # cs) sep then Some ([], drop (length sep) (c # cs))
      else (case partition_at cs sep of
              None \<Rightarrow> None
            | Some (a, b) \<Rightarrow> Some (c # a, b)))"

fun split_n :: "string \<Rightarrow> string \<Rightarrow> nat \<Rightarrow> string list" where
  \<comment> \<open>\<open>s.split(sep, n)\<close> for a non-empty \<open>sep\<close>\<close>
  "split_n s sep 0 = [s]"
| "split_n s sep (Suc n) =
     (case partition_at s sep of
        None \<Rightarrow> [s]
      | Some (a, b) \<Rightarrow> a # split_n b sep n)"

definition split_all :: "string \<Rightarrow> string \<Rightarrow> string list" where
  \<comment> \<open>\<open>s.split(sep)\<close> for a non-empty \<open>sep\<close>: a string has at most \<open>len(s)\<close> separators\<close>
  "split_all s sep = split_n s sep (length s)"

definition is_linebreak :: "char \<Rightarrow> bool" where
  \<comment> \<open>the line boundaries of \<open>str.splitlines\<close>\<close>
  "is_linebreak c = (c \<in> set [CHR 0x0A, CHR 0x0B, CHR 0x0C, CHR 0x0D,
                               CHR 0x1C, CHR 0x1D, CHR 0x1E, CHR 0x85])"

fun splitlines_from :: "string \<Rightarrow> string \<Rightarrow> string list" where
  "splitlines_from cur [] = (if cur = [] then [] else [cur])"
| "splitlines_from cur [c] = (if is_linebreak c then [cur] else [cur @ [c]])"
| "splitlines_from cur (c # d # cs) =
     (if c = CHR 0x0D \<and> d = CHR 0x0A then cur # splitlines_from [] cs
      else if is_linebreak c then cur # splitlines_from [] (d # cs)
      else splitlines_from (cur @ [c]) (d # cs))"

definition splitlines :: "string \<Rightarrow> string list" where
  "splitlines s = splitlines_from [] s"

fun join :: "string \<Rightarrow> string list \<Rightarrow> string" where
  \<comment> \<open>\<open>sep.join(xs)\<close>\<close>
  "join sep [] = []"
| "join sep [x] = x"
| "join sep (x # y # ys) = x @ sep @ join sep (y # ys)"

definition replace_char :: "char \<Rightarrow> string \<Rightarrow> string \<Rightarrow> string" where
  \<comment> \<open>\<open>s.replace(c, r)\<close> for a one-character \<open>c\<close>\<close>
  "replace_char c r s = concat (map (\<lambda>x. if x = c then r else [x]) s)"

definition isdigit_char :: "char \<Rightarrow> bool" where
  \<comment> \<open>\<open>str.isdigit\<close> for one character: the ASCII digits and the superscripts 1, 2, 3\<close>
  "isdigit_char c = (c \<in> set ''0123456789'' \<or> c \<in> set [CHR 0xB2, CHR 0xB3, CHR 0xB9])"

definition isdigit :: "string \<Rightarrow> bool" where
  "isdigit s = (s \<noteq> [] \<and> list_all isdigit_char s)"

section \<open>Character classes, case, numbers\<close>

definition ascii_upper :: "char \<Rightarrow> bool" where
  "ascii_upper c = (c \<in> set ''ABCDEFGHIJKLMNOPQRSTUVWXYZ'')"

definition ascii_lower :: "char \<Rightarrow> bool" where
  "ascii_lower c = (c \<in> set ''abcdefghijklmnopqrstuvwxyz'')"

definition ascii_digit :: "char \<Rightarrow> bool" where
  "ascii_digit c = (c \<in> set ''0123456789'')"

definition ascii_alnum :: "char \<Rightarrow> bool" where
  "ascii_alnum c = (ascii_upper c \<or> ascii_lower c \<or> ascii_digit c)"

definition lower_char :: "char \<Rightarrow> char" where
  \<comment> \<open>\<open>str.lower\<close> on one code point below 256\<close>
  "lower_char c =
     (let n = (of_char c :: nat)
      in if (65 \<le> n \<and> n \<le> 90) \<or> (192 \<le> n \<and> n \<le> 222 \<and> n \<noteq> 215)
         then char_of (n + 32) else c)"

definition lower :: "string \<Rightarrow> string" where
  "lower s = map lower_char s"

definition upper_char :: "char \<Rightarrow> string" where
  \<comment> \<open>\<open>str.upper\<close> on one code point below 256 other than U+00B5 and U+00FF: U+00DF
      becomes \<open>SS\<close>\<close>
  "upper_char c =
     (let n = (of_char c :: nat)
      in if (97 \<le> n \<and> n \<le> 122) \<or> (224 \<le> n \<and> n \<le> 254 \<and> n \<noteq> 247)
         then [char_of (n - 32)]
         else if n = 223 then ''SS'' else [c])"

definition upper_in_alphabet :: "string \<Rightarrow> bool" where
  \<comment> \<open>the upper-case forms of U+00B5 and U+00FF are code points above 255: \<open>str.upper\<close> of
      a string with one of them is not a string of the model\<close>
  "upper_in_alphabet s = (CHR 0xB5 \<notin> set s \<and> CHR 0xFF \<notin> set s)"

definition upper :: "string \<Rightarrow> string" where
  \<comment> \<open>\<open>s.upper()\<close> for \<open>s\<close> with \<^const>\<open>upper_in_alphabet\<close>\<close>
  "upper s = concat (map upper_char s)"

definition nfkd_table :: "(char \<times> string) list" where
  \<comment> \<open>for the code points 128 .. 255 whose NFKD form has ASCII characters: those characters\<close>
  "nfkd_table =
     [(CHR 0xA0, '' ''), (CHR 0xA8, '' ''), (CHR 0xAA, ''a''), (CHR 0xAF, '' ''),
      (CHR 0xB2, ''2''), (CHR 0xB3, ''3''), (CHR 0xB4, '' ''), (CHR 0xB8, '' ''),
      (CHR 0xB9, ''1''), (CHR 0xBA, ''o''), (CHR 0xBC, ''14''), (CHR 0xBD, ''12''),
      (CHR 0xBE, ''34''), (CHR 0xC0, ''A''), (CHR 0xC1, ''A''), (CHR 0xC2, ''A''),
      (CHR 0xC3, ''A''), (CHR 0xC4, ''A''), (CHR 0xC5, ''A''), (CHR 0xC7, ''C''),
      (CHR 0xC8, ''E''), (CHR 0xC9, ''E''), (CHR 0xCA, ''E''), (CHR 0xCB, ''E''),
      (CHR 0xCC, ''I''), (CHR 0xCD, ''I''), (CHR 0xCE, ''I''), (CHR 0xCF, ''I''),
      (CHR 0xD1, ''N''), (CHR 0xD2, ''O''), (CHR 0xD3, ''O''), (CHR 0xD4, ''O''),
      (CHR 0xD5, ''O''), (CHR 0xD6, ''O''), (CHR 0xD9, ''U''), (CHR 0xDA, ''U''),
      (CHR 0xDB, ''U''), (CHR 0xDC, ''U''), (CHR 0xDD, ''Y''), (CHR 0xE0, ''a''),
      (CHR 0xE1, ''a''), (CHR 0xE2, ''a''), (CHR 0xE3, ''a''), (CHR 0xE4, ''a''),
      (CHR 0xE5, ''a''), (CHR 0xE7, ''c''), (CHR 0xE8, ''e''), (CHR 0xE9, ''e''),
      (CHR 0xEA, ''e''), (CHR 0xEB, ''e''), (CHR 0xEC, ''i''), (CHR 0xED, ''i''),
      (CHR 0xEE, ''i''), (CHR 0xEF, ''i''), (CHR 0xF1, ''n''), (CHR 0xF2, ''o''),
      (CHR 0xF3, ''o''), (CHR 0xF4, ''o''), (CHR 0xF5, ''o''), (CHR 0xF6, ''o''),
      (CHR 0xF9, ''u''), (CHR 0xFA, ''u''), (CHR 0xFB, ''u''), (CHR 0xFC, ''u''),
      (CHR 0xFD, ''y''), (CHR 0xFF, ''y'')]"

definition ascii_fold_char :: "char \<Rightarrow> string" where
  "ascii_fold_char c =
     (if (of_char c :: nat) < 128 then [c]
      else (case map_of nfkd_table c of Some s \<Rightarrow> s | None \<Rightarrow> []))"

definition ascii_fold :: "string \<Rightarrow> string" where
  \<comment> \<open>\<open>unicodedata.normalize('NFKD', s).encode('ascii', 'ignore').decode('ascii')\<close>\<close>
  "ascii_fold s = concat (map ascii_fold_char s)"

function collapse_runs :: "(char \<Rightarrow> bool) \<Rightarrow> string \<Rightarrow> string \<Rightarrow> string" where
  \<comment> \<open>\<open>re.sub('[class]+', r, s)\<close>: every maximal run of characters of the class becomes \<open>r\<close>\<close>
  "collapse_runs p r [] = []"
| "collapse_runs p r (c # cs) =
     (if p c then r @ collapse_runs p r (dropWhile p cs) else c # collapse_runs p r cs)"
  by pat_completeness auto
termination
  by (relation "measure (\<lambda>(p, r, s). length s)")
     (auto simp: less_Suc_eq_le length_dropWhile_le)

definition digit_char :: "nat \<Rightarrow> char" where
  \<comment> \<open>the decimal digit \<open>d < 10\<close>\<close>
  "digit_char d = (''0123456789'' ! d)"

definition digit_val :: "char \<Rightarrow> nat" where
  "digit_val c = of_char c - 48"

function show_nat :: "nat \<Rightarrow> string" where
  \<comment> \<open>\<open>str(n)\<close> for a non-negative integer\<close>
  "show_nat n = (if n < 10 then [digit_char n] else show_nat (n div 10) @ [digit_char (n mod 10)])"
  by pat_completeness auto
termination
  by (relation "measure id") auto

declare show_nat.simps [simp del]

definition zero_pad :: "nat \<Rightarrow> int \<Rightarrow> string" where
  \<comment> \<open>\<open>f"{n:0{pad}d}"\<close> for \<open>pad \<ge> 0\<close>: zeros go between the sign and the digits\<close>
  "zero_pad pad n =
     (if n < 0 then CHR ''-'' # replicate (pad - 1 - length (show_nat (nat (- n)))) CHR ''0''
                      @ show_nat (nat (- n))
      else replicate (pad - length (show_nat (nat n))) CHR ''0'' @ show_nat (nat n))"

definition digits_value :: "string \<Rightarrow> nat" where
  \<comment> \<open>the number a string of decimal digits denotes\<close>
  "digits_value s = foldl (\<lambda>a c. 10 * a + digit_val c) 0 s"

definition canonical_digits :: "string \<Rightarrow> string" where
  \<comment> \<open>a string of decimal digits without its leading zeros; \<open>0\<close> when nothing is left\<close>
  "canonical_digits s =
     (if dropWhile (\<lambda>c. c = CHR ''0'') s = [] then ''0'' else dropWhile (\<lambda>c. c = CHR ''0'') s)"

definition zero_padded :: "nat \<Rightarrow> string \<Rightarrow> string" where
  \<comment> \<open>the specification's "id zero-padded to pad width", for an id of decimal digits\<close>
  "zero_padded width s =
     replicate (width - length (canonical_digits s)) CHR ''0'' @ canonical_digits s"

fun int_digits :: "nat \<Rightarrow> string \<Rightarrow> nat option" where
  \<comment> \<open>the rest of a decimal literal after a digit: digits, single underscores between them\<close>
  "int_digits acc [] = Some acc"
| "int_digits acc [c] = (if ascii_digit c then Some (10 * acc + digit_val c) else None)"
| "int_digits acc (c # d # cs) =
     (if ascii_digit c then int_digits (10 * acc + digit_val c) (d # cs)
      else if c = CHR ''_'' \<and> ascii_digit d then int_digits (10 * acc + digit_val d) cs
      else None)"

definition int_unsigned :: "string \<Rightarrow> nat option" where
  "int_unsigned s =
     (case s of [] \<Rightarrow> None
      | c # cs \<Rightarrow> if ascii_digit c then int_digits (digit_val c) cs else None)"

definition int_max_str_digits :: nat where
  \<comment> \<open>\<open>sys.int_info.default_max_str_digits\<close>\<close>
  "int_max_str_digits = 4300"

definition py_int :: "string \<Rightarrow> int option" where
  \<comment> \<open>\<open>int(s)\<close> for a string without surrounding whitespace; \<open>None\<close> is \<open>ValueError\<close>,
      which the interpreter also raises for a string with more digits than its limit\<close>
  "py_int s =
     (if int_max_str_digits < length (filter ascii_digit s) then None
      else
        (case s of
           [] \<Rightarrow> None
         | c # cs \<Rightarrow>
             if c = CHR ''+'' then map_option int (int_unsigned cs)
             else if c = CHR ''-'' then map_option (\<lambda>n. - int n) (int_unsigned cs)
             else map_option int (int_unsigned s)))"

definition hex_digit :: "nat \<Rightarrow> char" where
  "hex_digit d = (''0123456789abcdef'' ! d)"

definition printable :: "char \<Rightarrow> bool" where
  \<comment> \<open>\<open>str.isprintable\<close> for one code point below 256\<close>
  "printable c =
     (let n = (of_char c :: nat) in \<not> (n < 32 \<or> (127 \<le> n \<and> n \<le> 160) \<or> n = 173))"

definition repr_char :: "char \<Rightarrow> char \<Rightarrow> string" where
  "repr_char q c =
     (if c = CHR 0x5C then [CHR 0x5C, CHR 0x5C]
      else if c = q then [CHR 0x5C, q]
      else if c = CHR 0x09 then [CHR 0x5C, CHR ''t'']
      else if c = CHR 0x0A then [CHR 0x5C, CHR ''n'']
      else if c = CHR 0x0D then [CHR 0x5C, CHR ''r'']
      else if \<not> printable c
        then [CHR 0x5C, CHR ''x'', hex_digit (of_char c div 16), hex_digit (of_char c mod 16)]
      else [c])"

definition repr_str :: "string \<Rightarrow> string" where
  \<comment> \<open>\<open>repr(s)\<close>: double quotes only when \<open>s\<close> has a single quote and no double quote\<close>
  "repr_str s =
     (let q = (if CHR 0x27 \<in> set s \<and> CHR 0x22 \<notin> set s then CHR 0x22 else CHR 0x27)
      in [q] @ concat (map (repr_char q) s) @ [q])"

definition repr_list :: "string list \<Rightarrow> string" where
  "repr_list xs = ''['' @ join '', '' (map repr_str xs) @ '']''"

section \<open>Values and dictionaries\<close>

text \<open>
  A metadata value is a string or a list of strings; the contact builder can also produce
  a boolean (\<open>coerce_bool_if_needed\<close>).  A \<open>dict\<close> keeps insertion order: assigning to a
  key that is present replaces the value in place, assigning to a new key appends, which is
  \<^const>\<open>AList.update\<close>.
\<close>

datatype pyval = Str string | Lst "string list" | Bool bool

type_synonym 'v dict = "(string \<times> 'v) list"

definition has_key :: "'v dict \<Rightarrow> string \<Rightarrow> bool" where
  \<comment> \<open>\<open>k in d\<close>\<close>
  "has_key d k = (map_of d k \<noteq> None)"

section \<open>Frontmatter codec\<close>

datatype scalar = S string | B bool

definition safe_char :: "char \<Rightarrow> bool" where
  "safe_char c = (c \<in> set ''ABCDEFGHIJKLMNOPQRSTUVWXYZabcdefghijklmnopqrstuvwxyz0123456789_-'')"

definition SAFE_RE :: "string \<Rightarrow> bool" where
  \<comment> \<open>\<open>SAFE_RE.match(s)\<close> for \<open>^[A-Za-z0-9_-]+$\<close>; \<open>$\<close> also matches before a final newline\<close>
  "SAFE_RE s =
     ((s \<noteq> [] \<and> list_all safe_char s) \<or>
      (endswith s [CHR 0x0A] \<and> butlast s \<noteq> [] \<and> list_all safe_char (butlast s)))"

fun quote_scalar :: "scalar \<Rightarrow> string" where
  "quote_scalar (B b) = (if b then ''true'' else ''false'')"
| "quote_scalar (S s) =
     (if s = [] then [CHR 0x22, CHR 0x22]
      else if isdigit s \<or> startswith s ''+'' \<or> (length s > 1 \<and> hd s = CHR ''0'')
        then [CHR 0x22] @ s @ [CHR 0x22]
      else if SAFE_RE s then s
      else [CHR 0x22] @ replace_char (CHR 0x22) [CHR 0x5C, CHR 0x22] s @ [CHR 0x22])"

definition dump_entry :: "string \<times> pyval \<Rightarrow> string list" where
  \<comment> \<open>the lines one key contributes in \<open>dump_frontmatter\<close>\<close>
  "dump_entry kv = (case kv of (k, v) \<Rightarrow>
     (case v of
        Lst items \<Rightarrow>
          if items = [] then [k @ '': []'']
          else (k @ '':'') # map (\<lambda>item. ''  - '' @ quote_scalar (S item)) items
      | Str s \<Rightarrow> [k @ '': '' @ quote_scalar (S s)]
      | Bool b \<Rightarrow> [k @ '': '' @ quote_scalar (B b)]))"

definition dump_frontmatter :: "pyval dict \<Rightarrow> string" where
  "dump_frontmatter data =
     join [CHR 0x0A] ([''---''] @ concat (map dump_entry data) @ [''---'']) @ [CHR 0x0A]"

definition unquote_item :: "string \<Rightarrow> string" where
  \<comment> \<open>\<open>x.strip().strip('"').strip("'")\<close>\<close>
  "unquote_item x = strip_chars (strip_chars (strip x) [CHR 0x22]) [CHR 0x27]"

fun block_list :: "string list \<Rightarrow> string list \<Rightarrow> string list \<times> string list" where
  \<comment> \<open>the inner \<open>while j < len(lines)\<close>: the items read so far and the lines from \<open>j\<close> on\<close>
  "block_list items [] = (items, [])"
| "block_list items (nxt # rest) =
     (if startswith nxt ''  - '' then block_list (items @ [unquote_item (drop 4 nxt)]) rest
      else if startswith (strip nxt) ''- '' then block_list (items @ [unquote_item (drop 2 (strip nxt))]) rest
      else (items, nxt # rest))"

definition inline_value :: "string \<Rightarrow> pyval" where
  \<comment> \<open>the value of a \<open>key: val\<close> line with a non-empty \<open>val\<close>\<close>
  "inline_value val =
     (if startswith val ''['' \<and> endswith val '']'' then
        (let inner = strip (butlast (tl val))
         in if inner \<noteq> [] then Lst (map unquote_item (split_all inner '','')) else Lst [])
      else if (startswith val [CHR 0x22] \<and> endswith val [CHR 0x22]) \<or>
              (startswith val [CHR 0x27] \<and> endswith val [CHR 0x27])
        then Str (butlast (tl val))
      else Str val)"

function parse_lines :: "pyval dict \<Rightarrow> string list \<Rightarrow> pyval dict" where
  \<comment> \<open>the outer \<open>while i < len(lines)\<close>, on the lines from \<open>i\<close> on\<close>
  "parse_lines data [] = data"
| "parse_lines data (line # rest) =
     (if strip line = [] then parse_lines data rest
      else (case partition_at line '':'' of
        None \<Rightarrow> parse_lines data rest
      | Some (key0, val0) \<Rightarrow>
          if startswith (lstrip line) ''- '' then parse_lines data rest
          else
            (let key = strip key0; val = strip val0 in
             if val = [] then
               (case block_list [] rest of (items, rest') \<Rightarrow>
                  if items \<noteq> [] then parse_lines (AList.update key (Lst items) data) rest'
                  else parse_lines (AList.update key (Str []) data) rest)
             else parse_lines (AList.update key (inline_value val) data) rest)))"
  by pat_completeness auto
termination
proof -
  have shorter: "length ls' \<le> length ls" if "block_list items ls = (items', ls')"
    for items ls items' ls'
    using that by (induction items ls rule: block_list.induct) (auto split: if_splits)
  show ?thesis
    by (relation "measure (\<lambda>(data, ls). length ls)") (auto dest: shorter [OF sym])
qed

definition read_frontmatter :: "string \<Rightarrow> pyval dict \<times> string" where
  "read_frontmatter md_text =
     (if \<not> startswith md_text ''---'' then ([], md_text)
      else (case split_n md_text ''---'' 2 of
              [_, yaml_block, body] \<Rightarrow> (parse_lines [] (splitlines yaml_block), body)
            | _ \<Rightarrow> ([], md_text)))"

definition plain_key :: "string \<Rightarrow> bool" where
  \<comment> \<open>a key the line format can hold: no colon, no line boundary, no blank at either end,
      not the start of a list item, no delimiter\<close>
  "plain_key k =
     (CHR '':'' \<notin> set k \<and> (\<forall>c \<in> set k. \<not> is_linebreak c) \<and>
      (k \<noteq> [] \<longrightarrow> \<not> isspace (hd k) \<and> \<not> isspace (last k)) \<and>
      \<not> startswith k ''- '' \<and> \<not> contains k ''---'')"

definition plain_scalar :: "string \<Rightarrow> bool" where
  \<comment> \<open>a string the line format can hold: no line boundary, no double quote, no delimiter\<close>
  "plain_scalar s =
     ((\<forall>c \<in> set s. \<not> is_linebreak c) \<and> CHR 0x22 \<notin> set s \<and> \<not> contains s ''---'')"

definition plain_item :: "string \<Rightarrow> bool" where
  \<comment> \<open>a list item: also no single quote at either end\<close>
  "plain_item s = (plain_scalar s \<and> \<not> startswith s [CHR 0x27] \<and> \<not> endswith s [CHR 0x27])"

definition plain_value :: "pyval \<Rightarrow> bool" where
  "plain_value v =
     (case v of Str s \<Rightarrow> plain_scalar s | Lst items \<Rightarrow> list_all plain_item items | Bool b \<Rightarrow> False)"

definition plain_metadata :: "pyval dict \<Rightarrow> bool" where
  \<comment> \<open>a dictionary (its keys are distinct) of plain keys and values\<close>
  "plain_metadata data =
     (distinct (map fst data) \<and> list_all (\<lambda>kv. plain_key (fst kv) \<and> plain_value (snd kv)) data)"

section \<open>Merge engine\<close>

definition is_empty :: "pyval option \<Rightarrow> bool" where
  \<comment> \<open>the local \<open>is_empty\<close> of \<open>merge_frontmatter\<close>, applied to \<open>existing.get(k)\<close>\<close>
  "is_empty v = (case v of
       None \<Rightarrow> True
     | Some (Str s) \<Rightarrow> strip s = []
     | Some (Lst xs) \<Rightarrow> xs = []
     | Some (Bool b) \<Rightarrow> False)"

definition merge_step ::
  "pyval dict \<Rightarrow> string set \<Rightarrow> string set \<Rightarrow> pyval dict \<Rightarrow> string \<times> pyval \<Rightarrow> pyval dict" where
  \<comment> \<open>one iteration of \<open>for k, v in newdata.items()\<close>\<close>
  "merge_step existing preserve_keys overwrite_keys out kv =
     (case kv of (k, v) \<Rightarrow>
        if k \<in> preserve_keys \<and> has_key existing k then out
        else if k \<in> overwrite_keys \<or> \<not> has_key existing k \<or> is_empty (map_of existing k)
             then AList.update k v out
        else out)"

definition merge_frontmatter ::
  "pyval dict \<Rightarrow> pyval dict \<Rightarrow> string set \<Rightarrow> string set \<Rightarrow> pyval dict" where
  \<comment> \<open>\<open>preserve_keys\<close> and \<open>overwrite_keys\<close> are the two sets the function builds on entry;
      the lists of keys it logs at debug level are not part of the result.\<close>
  "merge_frontmatter existing newdata preserve_keys overwrite_keys =
     foldl (merge_step existing preserve_keys overwrite_keys) existing newdata"

section \<open>Normalization helpers\<close>

definition norm_key_for_match :: "string \<Rightarrow> string" where
  \<comment> \<open>\<open>_norm_key_for_match\<close>\<close>
  "norm_key_for_match name =
     filter (\<lambda>c. ascii_lower c \<or> ascii_digit c) (lower (ascii_fold name))"

definition singularize_norm :: "string \<Rightarrow> string" where
  \<comment> \<open>\<open>_singularize_norm\<close>\<close>
  "singularize_norm s = (if endswith s ''s'' then butlast s else s)"

definition email_match :: "string \<Rightarrow> bool" where
  \<comment> \<open>\<open>[A-Za-z0-9._%+-]+@[A-Za-z0-9.-]+\.[A-Za-z]{2,}\<close> against the whole of \<open>s\<close>: the
      dot before the final letters is the last dot of the part after the \<open>@\<close>\<close>
  "email_match s =
     (case partition_at s ''@'' of
        None \<Rightarrow> False
      | Some (local, rest) \<Rightarrow>
          local \<noteq> [] \<and> list_all (\<lambda>c. ascii_alnum c \<or> c \<in> set ''._%+-'') local \<and>
          CHR ''.'' \<in> set rest \<and>
          (let tld = rev (takeWhile (\<lambda>c. c \<noteq> CHR ''.'') (rev rest));
               dom = rev (drop 1 (dropWhile (\<lambda>c. c \<noteq> CHR ''.'') (rev rest)))
           in dom \<noteq> [] \<and> list_all (\<lambda>c. ascii_alnum c \<or> c \<in> set ''.-'') dom \<and>
              2 \<le> length tld \<and> list_all (\<lambda>c. ascii_upper c \<or> ascii_lower c) tld))"

definition EMAIL_RE :: "string \<Rightarrow> bool" where
  \<comment> \<open>\<open>EMAIL_RE.match(s)\<close>; \<open>$\<close> also matches before a final newline\<close>
  "EMAIL_RE s = (email_match s \<or> (endswith s [CHR 0x0A] \<and> email_match (butlast s)))"

definition is_valid_email :: "string \<Rightarrow> bool" where
  "is_valid_email s = (s \<noteq> [] \<and> EMAIL_RE (strip s))"

definition truthy :: "pyval \<Rightarrow> bool" where
  "truthy v = (case v of Str s \<Rightarrow> s \<noteq> [] | Lst xs \<Rightarrow> xs \<noteq> [] | Bool b \<Rightarrow> b)"

definition py_str :: "pyval \<Rightarrow> string" where
  \<comment> \<open>\<open>str(v)\<close>\<close>
  "py_str v = (case v of
       Str s \<Rightarrow> s
     | Lst xs \<Rightarrow> repr_list xs
     | Bool b \<Rightarrow> if b then ''True'' else ''False'')"

definition str_or_empty :: "pyval option \<Rightarrow> string" where
  \<comment> \<open>\<open>str(d.get(k) or '')\<close>\<close>
  "str_or_empty v = (case v of None \<Rightarrow> [] | Some x \<Rightarrow> if truthy x then py_str x else [])"

definition normalize_phone :: "pyval \<Rightarrow> string" where
  "normalize_phone fr_phone =
     (if \<not> truthy fr_phone then []
      else
        (let s0 = filter (\<lambda>c. ascii_digit c \<or> c = CHR ''+'') (py_str fr_phone);
             s1 = (if startswith s0 ''00'' then ''+'' @ drop 2 s0 else s0)
         in if startswith s1 ''+33'' \<and> (length s1 = 12 \<or> length s1 = 13)
              then ''+33'' @ (if startswith (drop 3 s1) ''0'' then drop 4 s1 else drop 3 s1)
            else if startswith s1 ''0'' \<and> 10 \<le> length s1 then ''+33'' @ drop 1 s1
            else s1))"

section \<open>Identity composition\<close>

definition slugify :: "string \<Rightarrow> string" where
  \<comment> \<open>\<open>slugify(value, allow_unicode=False)\<close>, the only way the program calls it\<close>
  "slugify value =
     collapse_runs (\<lambda>c. c = CHR ''-'' \<or> isspace c) ''-''
       (lower (strip (filter (\<lambda>c. ascii_alnum c \<or> c = CHR ''_'' \<or> isspace c \<or> c = CHR ''-'')
                        (ascii_fold value))))"

definition make_id_prefix :: "string \<Rightarrow> string" where
  \<comment> \<open>\<open>upper\<close> is applied to the result of \<open>slugify\<close>, which is ASCII\<close>
  "make_id_prefix s =
     (if s = [] then []
      else filter (\<lambda>c. ascii_upper c \<or> ascii_digit c \<or> c = CHR ''_'')
             (replace_char (CHR ''-'') ''_'' (upper (slugify s))))"

definition format_composed_id :: "string \<Rightarrow> string \<Rightarrow> int \<Rightarrow> string" where
  \<comment> \<open>\<open>int(s)\<close> and the format with a negative width both raise \<open>ValueError\<close>, which the
      function catches\<close>
  "format_composed_id prefix raw_id pad =
     (let pfx = make_id_prefix prefix in
      if raw_id = [] then pfx
      else
        (let s = strip raw_id in
         case (if pad < 0 then None else py_int s) of
           Some n \<Rightarrow> if pfx \<noteq> [] then pfx @ ''-'' @ zero_pad (nat pad) n else zero_pad (nat pad) n
         | None \<Rightarrow> if pfx \<noteq> [] then pfx @ ''-'' @ s else s))"

section \<open>Contact builder\<close>

type_synonym row = "(string \<times> string) list"

type_synonym contact = "pyval dict"

datatype extras_policy = ExtrasOther | ExtrasAll | ExtrasList "string list"

text \<open>
  The configuration, with its sections in the shapes the program reads them in.  An absent
  section is the default the program puts in its place: no aliases, an \<open>extras\<close> value that is
  neither \<open>'all'\<close> nor a list (\<^const>\<open>ExtrasOther\<close>), no list or boolean fields, no
  projects, no transform, no overwrite keys; \<open>preserve_keys\<close> and \<open>required_fields\<close> have
  defaults of their own, so they are optional here.  A project is the \<open>aliases\<close> object of
  its entry.
\<close>

record config =
  cfg_aliases :: "(string \<times> string list) list"
  cfg_extras :: extras_policy
  cfg_list_fields :: "string list"
  cfg_boolean_fields :: "string list"
  cfg_normalize_phone_fr :: bool
  cfg_projects :: "(string \<times> (string \<times> string list) list) list"
  cfg_preserve_keys :: "string list option"
  cfg_overwrite_keys :: "string list"
  cfg_required_fields :: "string list option"

text \<open>
  The library functions the program calls and the model does not define: \<open>json.loads\<close> on a
  text in square brackets (\<open>None\<close> when it raises, else \<open>str(x)\<close> of each element of the
  list), and the hexadecimal SHA-1 digest of the UTF-8 encoding of a string.
\<close>

record lib =
  json_loads_list :: "string \<Rightarrow> string list option"
  sha1_hexdigest :: "string \<Rightarrow> string"

definition parse_maybe_list :: "lib \<Rightarrow> string \<Rightarrow> string list option" where
  "parse_maybe_list L val =
     (let s = strip val in
      if startswith s ''['' \<and> endswith s '']'' then json_loads_list L s else None)"

definition clean_list :: "string list \<Rightarrow> string list" where
  \<comment> \<open>\<open>[str(x).strip() for x in parsed if str(x).strip()]\<close>\<close>
  "clean_list xs = filter (\<lambda>x. x \<noteq> []) (map strip xs)"

definition split_list :: "string \<Rightarrow> string list" where
  \<comment> \<open>on a string, with the default separators; U+2022 is outside the alphabet\<close>
  "split_list val =
     filter (\<lambda>p. p \<noteq> [])
       (map strip
          (split_all (map (\<lambda>c. if c \<in> set [CHR '';'', CHR '','', CHR ''|'', CHR 0xB7]
                                then CHR '','' else c) val) '',''))"

definition is_bool_field :: "string \<Rightarrow> config \<Rightarrow> bool" where
  "is_bool_field name cfg =
     (let n = norm_key_for_match name in
      (\<exists>b \<in> set (cfg_boolean_fields cfg). norm_key_for_match b = n) \<or>
      startswith n ''is'' \<or> startswith n ''has'' \<or> contains n ''actif'' \<or>
      contains n ''active'' \<or> contains n ''enabled'' \<or> contains n ''inscrit'')"

definition coerce_bool_if_needed :: "string \<Rightarrow> string \<Rightarrow> config \<Rightarrow> pyval" where
  "coerce_bool_if_needed name val cfg =
     (if \<not> is_bool_field name cfg then Str val
      else
        (let s = lower (strip val) in
         if s \<in> set [''true'', ''vrai'', ''yes'', ''oui'', ''1''] then Bool True
         else if s \<in> set [''false'', ''faux'', ''no'', ''non'', ''0''] then Bool False
         else Str val))"

definition norm_to_orig :: "row \<Rightarrow> (string \<times> string) list" where
  "norm_to_orig row =
     foldl (\<lambda>m k. AList.update (singularize_norm (norm_key_for_match k)) k
                     (AList.update (norm_key_for_match k) k m))
           [] (map fst row)"

definition row_by_norm :: "row \<Rightarrow> (string \<times> string) list \<Rightarrow> string \<Rightarrow> string option" where
  \<comment> \<open>\<open>row[norm_to_orig[key]]\<close> when \<open>key\<close> is in \<open>norm_to_orig\<close>\<close>
  "row_by_norm row n2o key =
     (case map_of n2o key of None \<Rightarrow> None | Some orig \<Rightarrow> map_of row orig)"

definition nonblank :: "string option \<Rightarrow> bool" where
  "nonblank v = (case v of None \<Rightarrow> False | Some s \<Rightarrow> strip s \<noteq> [])"

fun first_present :: "row \<Rightarrow> (string \<times> string) list \<Rightarrow> string list \<Rightarrow> string" where
  \<comment> \<open>the loop \<open>for c in candidates\<close> of \<open>select_first_present\<close>\<close>
  "first_present row n2o [] = []"
| "first_present row n2o (c # cs) =
     (if nonblank (map_of row c) then the (map_of row c)
      else if nonblank (row_by_norm row n2o (norm_key_for_match c))
        then the (row_by_norm row n2o (norm_key_for_match c))
      else if nonblank (row_by_norm row n2o (singularize_norm (norm_key_for_match c)))
        then the (row_by_norm row n2o (singularize_norm (norm_key_for_match c)))
      else first_present row n2o cs)"

definition select_first_present :: "row \<Rightarrow> string list \<Rightarrow> string" where
  "select_first_present row candidates = first_present row (norm_to_orig row) candidates"

definition logical_fields :: "string list" where
  "logical_fields =
     [''id_mslist'', ''Nom'', ''Pr'' @ [CHR 0xE9] @ ''nom'', ''Tel_Mobile'', ''Tel_Fixe'',
      ''Mail_Pro'', ''Mail_Perso'', ''organisation'', ''groupes'', ''type'']"

definition candidates :: "config \<Rightarrow> string \<Rightarrow> string \<Rightarrow> string list" where
  \<comment> \<open>the local \<open>candidates\<close> of \<open>build_contact\<close>; \<open>project\<close> is \<open>project or ''\<close>\<close>
  "candidates cfg project field_key =
     (case map_of (cfg_projects cfg) project of
        Some pa \<Rightarrow>
          (case map_of pa field_key of
             Some c \<Rightarrow> c
           | None \<Rightarrow> (case map_of (cfg_aliases cfg) field_key of Some c \<Rightarrow> c | None \<Rightarrow> [field_key]))
      | None \<Rightarrow> (case map_of (cfg_aliases cfg) field_key of Some c \<Rightarrow> c | None \<Rightarrow> [field_key]))"

definition is_list_field :: "config \<Rightarrow> string \<Rightarrow> bool" where
  "is_list_field cfg name =
     (\<exists>k \<in> set (cfg_list_fields cfg). norm_key_for_match k = norm_key_for_match name)"

definition logical_value :: "lib \<Rightarrow> row \<Rightarrow> config \<Rightarrow> string \<Rightarrow> string \<Rightarrow> pyval" where
  \<comment> \<open>the value \<open>build_contact\<close> stores for one of the ten logical fields\<close>
  "logical_value L row cfg project logical =
     (let val = select_first_present row (candidates cfg project logical) in
      if logical \<in> set (cfg_list_fields cfg) then
        (case parse_maybe_list L val of
           Some parsed \<Rightarrow> Lst (clean_list parsed)
         | None \<Rightarrow> Lst (split_list val))
      else if logical = ''type'' \<and> val = [] then Str ''contact''
      else Str val)"

definition extra_value :: "lib \<Rightarrow> config \<Rightarrow> string \<Rightarrow> string \<Rightarrow> pyval" where
  \<comment> \<open>the value \<open>build_contact\<close> stores for a passthrough field\<close>
  "extra_value L cfg k v =
     (case parse_maybe_list L v of
        Some parsed \<Rightarrow> Lst (clean_list parsed)
      | None \<Rightarrow> if is_list_field cfg k then Lst (split_list v) else coerce_bool_if_needed k v cfg)"

definition build_contact :: "lib \<Rightarrow> row \<Rightarrow> config \<Rightarrow> string \<Rightarrow> contact" where
  "build_contact L row cfg project =
     (let contact = map (\<lambda>logical. (logical, logical_value L row cfg project logical)) logical_fields
      in case cfg_extras cfg of
           ExtrasAll \<Rightarrow>
             (let used = set (concat (map (candidates cfg project) logical_fields));
                  existing_norm = set (map norm_key_for_match (map fst contact))
              in foldl (\<lambda>c (k, v).
                          if k \<in> used then c
                          else if norm_key_for_match k \<in> existing_norm then c
                          else AList.update k (extra_value L cfg k v) c)
                       contact row)
         | ExtrasList names \<Rightarrow>
             foldl (\<lambda>c name.
                      case map_of row name of
                        None \<Rightarrow> c
                      | Some v \<Rightarrow>
                          if norm_key_for_match name \<in> set (map norm_key_for_match (map fst c)) then c
                          else AList.update name (extra_value L cfg name v) c)
                   contact names
         | ExtrasOther \<Rightarrow> contact)"

section \<open>Document store index and matching\<close>

text \<open>
  The store is the output directory: the names of its \<open>.md\<close> files with their texts, in the
  order in which the directory lists them.  Writing a file that exists replaces its text;
  writing a new file adds it at the end.  Reads and writes of the model do not fail.
\<close>

type_synonym store = "(string \<times> string) list"

type_synonym index = "(string \<times> string) list"

definition email_candidates :: "pyval dict \<Rightarrow> string list" where
  "email_candidates fm =
     concat (map (\<lambda>(key, val).
                    if contains (norm_key_for_match key) ''email'' \<or>
                       contains (norm_key_for_match key) ''mail''
                    then (case val of
                            Lst items \<Rightarrow> map (\<lambda>item. lower (strip item)) items
                          | _ \<Rightarrow> [lower (strip (py_str val))])
                    else []) fm)"

definition index_document :: "index \<times> index \<Rightarrow> string \<times> string \<Rightarrow> index \<times> index" where
  \<comment> \<open>one iteration of \<open>for md in out_dir.glob('*.md')\<close>\<close>
  "index_document idx doc =
     (case idx of (existing_by_id, existing_by_email) \<Rightarrow>
      case doc of (md, txt) \<Rightarrow>
        (let fm = fst (read_frontmatter txt) in
         if fm = [] then (existing_by_id, existing_by_email)
         else
           ((case map_of fm ''id_mslist'' of
               Some v \<Rightarrow> if truthy v then AList.update (py_str v) md existing_by_id
                         else existing_by_id
             | None \<Rightarrow> existing_by_id),
            foldl (\<lambda>m e. if e \<noteq> [] \<and> is_valid_email e then AList.update e md m else m)
                  existing_by_email (email_candidates fm))))"

definition build_existing_indexes :: "store \<Rightarrow> index \<times> index" where
  "build_existing_indexes out_dir = foldl index_document ([], []) out_dir"

fun first_valid_email :: "contact \<Rightarrow> string list \<Rightarrow> string" where
  "first_valid_email contact [] = []"
| "first_valid_email contact (ek # eks) =
     (case map_of contact ek of
        None \<Rightarrow> first_valid_email contact eks
      | Some v \<Rightarrow>
          if truthy v \<and> strip (py_str v) \<noteq> [] \<and> is_valid_email (lower (strip (py_str v)))
          then lower (strip (py_str v))
          else first_valid_email contact eks)"

definition choose_primary_email_lower :: "contact \<Rightarrow> string" where
  "choose_primary_email_lower contact =
     first_valid_email contact [''email'', ''Mail_Pro'', ''Mail_Perso'', ''mail_pro'', ''mail_perso'']"

fun get_contact_value_loop :: "contact \<Rightarrow> (string \<times> string) list \<Rightarrow> string list \<Rightarrow> string" where
  "get_contact_value_loop contact norm_map [] = []"
| "get_contact_value_loop contact norm_map (a # as) =
     (case map_of norm_map (norm_key_for_match a) of
        None \<Rightarrow> get_contact_value_loop contact norm_map as
      | Some k \<Rightarrow>
          (case map_of contact k of
             Some (Str v) \<Rightarrow>
               if strip v \<noteq> [] then strip v else get_contact_value_loop contact norm_map as
           | _ \<Rightarrow> get_contact_value_loop contact norm_map as))"

definition get_contact_value :: "contact \<Rightarrow> string list \<Rightarrow> string" where
  "get_contact_value contact aliases =
     get_contact_value_loop contact
       (foldl (\<lambda>m k. AList.update (norm_key_for_match k) k m) [] (map fst contact)) aliases"

definition sanitize_filename :: "string \<Rightarrow> string" where
  \<comment> \<open>on \<open>str(title or '')\<close>\<close>
  "sanitize_filename title =
     (let s = strip (collapse_runs isspace '' ''
                (collapse_runs (\<lambda>c. c \<in> set [CHR 0x5C, CHR ''/'', CHR '':'', CHR ''*'', CHR ''?'',
                                                 CHR 0x22, CHR ''<'', CHR ''>'', CHR ''|''])
                   '' '' (strip title)))
      in if s \<noteq> [] then s else ''contact'')"

section \<open>Metadata of a contact\<close>

definition get_default :: "contact \<Rightarrow> string \<Rightarrow> pyval \<Rightarrow> pyval" where
  \<comment> \<open>\<open>contact.get(k, default)\<close>\<close>
  "get_default contact k d = (case map_of contact k of Some v \<Rightarrow> v | None \<Rightarrow> d)"

definition normalize_field :: "string \<Rightarrow> pyval dict \<Rightarrow> pyval dict" where
  \<comment> \<open>\<open>if new_fm.get(k): new_fm[k] = normalize_phone(new_fm[k])\<close>\<close>
  "normalize_field k new_fm =
     (case map_of new_fm k of
        Some v \<Rightarrow> if truthy v then AList.update k (Str (normalize_phone v)) new_fm else new_fm
      | None \<Rightarrow> new_fm)"

definition core_frontmatter :: "contact \<Rightarrow> string \<Rightarrow> pyval dict" where
  \<comment> \<open>the eleven assignments \<open>build_frontmatter\<close> starts with; \<open>utcnow\<close> is
      \<open>datetime.utcnow().isoformat(timespec='seconds')\<close>\<close>
  "core_frontmatter contact utcnow =
     [(''Nom'', get_default contact ''Nom'' (Str [])),
      (''Pr'' @ [CHR 0xE9] @ ''nom'', get_default contact (''Pr'' @ [CHR 0xE9] @ ''nom'') (Str [])),
      (''Tel_Mobile'', get_default contact ''Tel_Mobile'' (Str [])),
      (''Tel_Fixe'', get_default contact ''Tel_Fixe'' (Str [])),
      (''Mail_Pro'', get_default contact ''Mail_Pro'' (Str [])),
      (''Mail_Perso'', get_default contact ''Mail_Perso'' (Str [])),
      (''organisation'', get_default contact ''organisation'' (Str [])),
      (''id_mslist'', get_default contact ''id_mslist'' (Str [])),
      (''groupes'', get_default contact ''groupes'' (Lst [])),
      (''type'', get_default contact ''type'' (Str ''contact'')),
      (''source_updated'', Str (utcnow @ ''Z''))]"

definition add_remaining :: "pyval dict \<Rightarrow> string \<times> pyval \<Rightarrow> pyval dict" where
  \<comment> \<open>one iteration of the loop under \<open># Add remaining keys\<close>\<close>
  "add_remaining new_fm kv =
     (case kv of (k, v) \<Rightarrow>
        if k = ''src_id_mslist'' then new_fm
        else if k \<in> set [''email'', ''telephone''] \<and> \<not> (truthy v \<and> strip (py_str v) \<noteq> [])
          then new_fm
        else if \<not> has_key new_fm k then AList.update k v new_fm
        else new_fm)"

definition build_frontmatter :: "contact \<Rightarrow> config \<Rightarrow> string \<Rightarrow> pyval dict" where
  "build_frontmatter contact cfg utcnow =
     foldl add_remaining
       (if cfg_normalize_phone_fr cfg
        then normalize_field ''Tel_Fixe'' (normalize_field ''Tel_Mobile'' (core_frontmatter contact utcnow))
        else core_frontmatter contact utcnow)
       contact"

section \<open>Per-record pipeline\<close>

datatype fallback = Seq | Hash | Raw | Skip

record args =
  arg_project :: string
  arg_id_key :: string
  arg_id_prefix :: string
  arg_id_pad :: int
  arg_id_fallback :: fallback
  arg_dry_run :: bool

datatype action = CREATED | UPDATED | SKIPPED

text \<open>
  What stops \<open>process_contact_row\<close> without a result: the two exceptions it can raise on
  rows of strings, and \<open>OutsideAlphabet\<close>, which is no exception: the program goes on with
  a file name that has a code point above U+00FF, and the model gives no result.
\<close>

datatype py_error = AttributeError | TypeError | OutsideAlphabet

definition DEFAULT_PRESERVE_KEYS :: "string list" where
  "DEFAULT_PRESERVE_KEYS = [''notes'', ''custom_tags'']"

definition DEFAULT_OVERWRITE_KEYS :: "string set" where
  "DEFAULT_OVERWRITE_KEYS =
     {''Nom'', ''Pr'' @ [CHR 0xE9] @ ''nom'', ''Tel_Mobile'', ''Tel_Fixe'', ''Mail_Pro'', ''Mail_Perso'',
      ''organisation'', ''groupes'', ''type'', ''id_mslist'', ''source_updated''}"

definition required_fields :: "config \<Rightarrow> string list" where
  \<comment> \<open>\<open>cfg.get('required_fields', [...])\<close>\<close>
  "required_fields cfg =
     (case cfg_required_fields cfg of
        Some r \<Rightarrow> r
      | None \<Rightarrow> [''Nom'', ''Pr'' @ [CHR 0xE9] @ ''nom'', ''Tel_Mobile'', ''Tel_Fixe'', ''Mail_Pro'',
                 ''Mail_Perso'', ''organisation''])"

definition json_escape_char :: "char \<Rightarrow> string" where
  \<comment> \<open>one character of a JSON string written with \<open>ensure_ascii=False\<close>\<close>
  "json_escape_char c =
     (if c = CHR 0x22 then [CHR 0x5C, CHR 0x22]
      else if c = CHR 0x5C then [CHR 0x5C, CHR 0x5C]
      else if c = CHR 0x0A then [CHR 0x5C, CHR ''n'']
      else if c = CHR 0x0D then [CHR 0x5C, CHR ''r'']
      else if c = CHR 0x09 then [CHR 0x5C, CHR ''t'']
      else if c = CHR 0x08 then [CHR 0x5C, CHR ''b'']
      else if c = CHR 0x0C then [CHR 0x5C, CHR ''f'']
      else if (of_char c :: nat) < 32
        then [CHR 0x5C, CHR ''u'', CHR ''0'', CHR ''0'',
              hex_digit (of_char c div 16), hex_digit (of_char c mod 16)]
      else [c])"

definition json_string :: "string \<Rightarrow> string" where
  "json_string s = [CHR 0x22] @ concat (map json_escape_char s) @ [CHR 0x22]"

definition json_dumps_sorted :: "row \<Rightarrow> string" where
  \<comment> \<open>\<open>json.dumps(row, sort_keys=True, ensure_ascii=False)\<close>\<close>
  "json_dumps_sorted row =
     ''{'' @ join '', '' (map (\<lambda>(k, v). json_string k @ '': '' @ json_string v)
                             (sort_key fst row)) @ ''}''"

definition compose_custom_id ::
  "lib \<Rightarrow> args \<Rightarrow> row \<Rightarrow> string \<Rightarrow> nat \<Rightarrow> (string option \<times> nat) option" where
  \<comment> \<open>the branch \<open>if args.id_prefix\<close>: \<open>None\<close> when the row is skipped, else \<open>composed\<close> and
      the sequence counter after the step\<close>
  "compose_custom_id L a row src_ms_id seq_counter =
     (if isdigit src_ms_id
        then Some (Some (format_composed_id (arg_id_prefix a) src_ms_id (arg_id_pad a)), seq_counter)
      else
        (case arg_id_fallback a of
           Seq \<Rightarrow> Some (Some (format_composed_id (arg_id_prefix a) (show_nat seq_counter) (arg_id_pad a)),
                         seq_counter + 1)
         | Hash \<Rightarrow> Some (Some (format_composed_id (arg_id_prefix a)
                                  (take 8 (sha1_hexdigest L (json_dumps_sorted row))) (arg_id_pad a)),
                          seq_counter)
         | Raw \<Rightarrow> if src_ms_id \<noteq> []
                    then Some (Some (format_composed_id (arg_id_prefix a) src_ms_id (arg_id_pad a)),
                               seq_counter)
                  else Some (None, seq_counter)
         | Skip \<Rightarrow> None))"

definition field_strip :: "pyval option \<Rightarrow> py_error + string" where
  \<comment> \<open>\<open>(contact.get(k) or '').strip()\<close>: only a string has \<open>strip\<close>\<close>
  "field_strip v =
     (case v of
        None \<Rightarrow> Inr []
      | Some (Str s) \<Rightarrow> Inr (strip s)
      | Some x \<Rightarrow> if truthy x then Inl AttributeError else Inr [])"

definition title_source :: "contact \<Rightarrow> string \<Rightarrow> pyval \<times> string option" where
  \<comment> \<open>\<open>first_name or contact.get('organisation') or contact.get('email') or 'contact'\<close>: the
      value, and the key of \<open>contact\<close> whose own object the value is, if it is one\<close>
  "title_source contact first_name =
     (if first_name \<noteq> [] then (Str first_name, None)
      else (case map_of contact ''organisation'' of
              Some v \<Rightarrow> if truthy v then (v, Some ''organisation'')
                        else (case map_of contact ''email'' of
                                Some w \<Rightarrow> if truthy w then (w, Some ''email'') else (Str ''contact'', None)
                              | None \<Rightarrow> (Str ''contact'', None))
            | None \<Rightarrow>
                (case map_of contact ''email'' of
                   Some w \<Rightarrow> if truthy w then (w, Some ''email'') else (Str ''contact'', None)
                 | None \<Rightarrow> (Str ''contact'', None))))"

definition add_suffix ::
  "contact \<Rightarrow> pyval \<times> string option \<Rightarrow> string \<Rightarrow> py_error + pyval \<times> contact" where
  \<comment> \<open>\<open>title_human += suffix\<close>: a string gives a new string; a list is extended in place
      by the characters of the suffix, and the list is the one \<open>contact\<close> holds under the
      key it was read from; a boolean raises\<close>
  "add_suffix contact src suffix =
     (case src of (t, key) \<Rightarrow>
      case t of
        Str s \<Rightarrow> Inr (Str (s @ suffix), contact)
      | Lst xs \<Rightarrow>
          Inr (Lst (xs @ map (\<lambda>c. [c]) suffix),
               case key of
                 Some k \<Rightarrow> AList.update k (Lst (xs @ map (\<lambda>c. [c]) suffix)) contact
               | None \<Rightarrow> contact)
      | Bool b \<Rightarrow> Inl TypeError)"

definition filename_base_of :: "contact \<Rightarrow> py_error + string \<times> contact" where
  \<comment> \<open>the lines under \<open># Title and filename\<close>: \<open>filename_base\<close>, and \<open>contact\<close> as these
      lines leave it\<close>
  "filename_base_of contact =
     (case field_strip (map_of contact ''Nom'') of
        Inl e \<Rightarrow> Inl e
      | Inr last_name \<Rightarrow>
     (case field_strip (map_of contact (''Pr'' @ [CHR 0xE9] @ ''nom'')) of
        Inl e \<Rightarrow> Inl e
      | Inr first_name \<Rightarrow>
     (let etab = get_contact_value contact
                   [''Etablissement'', [CHR 0xC9] @ ''tablissement'', ''etablissement'',
                    ''organisation'', ''Organisation'']
      in if last_name \<noteq> [] \<and> \<not> upper_in_alphabet last_name then Inl OutsideAlphabet
         else
           (let title0 =
                  (if last_name \<noteq> []
                   then (Str (upper last_name @ (if first_name \<noteq> [] then '' '' @ first_name else [])),
                         None)
                   else title_source contact first_name)
            in case (if etab \<noteq> [] then add_suffix contact title0 ('' - '' @ etab)
                     else Inr (fst title0, contact)) of
                 Inl e \<Rightarrow> Inl e
               | Inr (title_human, contact') \<Rightarrow>
                   Inr (sanitize_filename (if truthy title_human then py_str title_human else []),
                        contact')))))"

function fresh_target :: "store \<Rightarrow> string \<Rightarrow> nat \<Rightarrow> string" where
  \<comment> \<open>\<open>while target.exists(): target = out_dir / f"{filename_base} - {i}.md"; i += 1\<close>,
      entered with the candidate for \<open>i\<close> already known to exist\<close>
  "fresh_target out_dir filename_base i =
     (if has_key out_dir (filename_base @ '' - '' @ show_nat i @ ''.md'')
      then fresh_target out_dir filename_base (Suc i)
      else filename_base @ '' - '' @ show_nat i @ ''.md'')"
  by pat_completeness auto

termination
proof -
  have bound: "n < 10 ^ length (show_nat n)" for n
  proof (induction n rule: less_induct)
    case (less n)
    show ?case
    proof (cases "n < 10")
      case True
      then show ?thesis by (subst show_nat.simps) simp
    next
      case False
      then have "n div 10 < n" by simp
      from less.IH [OF this] have "n div 10 < 10 ^ length (show_nat (n div 10))" .
      then have "n < 10 * 10 ^ length (show_nat (n div 10))" by simp
      with False show ?thesis by (subst show_nat.simps) simp
    qed
  qed
  have key_length: "length k \<le> length (concat (map fst d))" if "has_key d k"
    for d :: store and k
  proof -
    have "length k \<le> length (concat ks)" if "k \<in> set ks" for ks :: "string list"
      using that by (induction ks) auto
    moreover from \<open>has_key d k\<close> have "k \<in> set (map fst d)"
      by (auto simp: has_key_def dest: map_of_SomeD intro: rev_image_eqI)
    ultimately show ?thesis by blast
  qed
  have step: "10 ^ length (concat (map fst d)) - Suc i < 10 ^ length (concat (map fst d)) - i"
    if "has_key d (b @ '' - '' @ show_nat i @ ''.md'')" for d :: store and b i
  proof -
    from key_length [OF that] have "length (show_nat i) \<le> length (concat (map fst d))"
      by simp
    then have "(10::nat) ^ length (show_nat i) \<le> 10 ^ length (concat (map fst d))"
      by (simp add: power_increasing)
    with bound [of i] have "i < 10 ^ length (concat (map fst d))" by linarith
    then show ?thesis by simp
  qed
  show ?thesis
    by (relation "measure (\<lambda>(d, b, i). 10 ^ length (concat (map fst d)) - i)")
       (auto intro: step)
qed

declare fresh_target.simps [simp del]

definition id_lookup :: "args \<Rightarrow> contact \<Rightarrow> index \<Rightarrow> string option" where
  \<comment> \<open>\<open>unique_id = str(contact.get(args.id_key) or '').strip()\<close> and the document
      \<open>existing_by_id\<close> has for it, if \<open>unique_id and unique_id in existing_by_id\<close>\<close>
  "id_lookup a contact existing_by_id =
     (let unique_id = strip (str_or_empty (map_of contact (arg_id_key a)))
      in if unique_id \<noteq> [] then map_of existing_by_id unique_id else None)"

definition email_lookup :: "contact \<Rightarrow> index \<Rightarrow> string option" where
  \<comment> \<open>the document \<open>existing_by_email\<close> has for the primary email, if
      \<open>email_lc and email_lc in existing_by_email\<close>\<close>
  "email_lookup contact existing_by_email =
     (let email_lc = choose_primary_email_lower contact
      in if email_lc \<noteq> [] then map_of existing_by_email email_lc else None)"

definition match_existing :: "args \<Rightarrow> contact \<Rightarrow> index \<Rightarrow> index \<Rightarrow> store \<Rightarrow> string \<Rightarrow> string" where
  \<comment> \<open>the lines under \<open># Match existing\<close>: the target of the record\<close>
  "match_existing a contact existing_by_id existing_by_email out_dir filename_base =
     (case id_lookup a contact existing_by_id of
        Some target \<Rightarrow> target
      | None \<Rightarrow>
          (case email_lookup contact existing_by_email of
             Some target \<Rightarrow> target
           | None \<Rightarrow>
               if has_key out_dir (filename_base @ ''.md'')
               then fresh_target out_dir filename_base 2
               else filename_base @ ''.md''))"

record row_result =
  res_action :: action
  res_target :: "string option"
  res_md_text :: "string option"
  res_contact :: contact
  res_seq_counter :: nat

definition preserve_set :: "config \<Rightarrow> string set" where
  \<comment> \<open>\<open>set(cfg.get('preserve_keys', DEFAULT_PRESERVE_KEYS) or [])\<close>\<close>
  "preserve_set cfg =
     set (case cfg_preserve_keys cfg of Some p \<Rightarrow> p | None \<Rightarrow> DEFAULT_PRESERVE_KEYS)"

definition authoritative :: "config \<Rightarrow> string set" where
  "authoritative cfg = DEFAULT_OVERWRITE_KEYS \<union> set (cfg_overwrite_keys cfg)"

definition write_text_of :: "store \<Rightarrow> string \<Rightarrow> pyval dict \<Rightarrow> config \<Rightarrow> action \<times> string" where
  \<comment> \<open>the lines under \<open># FM\<close>, after \<open>new_fm\<close> is built: the action and the text to write\<close>
  "write_text_of out_dir target new_fm cfg =
     (case map_of out_dir target of
        Some txt \<Rightarrow>
          (case read_frontmatter txt of (old_fm, old_body) \<Rightarrow>
             (UPDATED,
              dump_frontmatter (merge_frontmatter old_fm new_fm (preserve_set cfg) (authoritative cfg))
                @ (if old_body \<noteq> [] then old_body else [CHR 0x0A])))
      | None \<Rightarrow> (CREATED, dump_frontmatter new_fm @ [CHR 0x0A]))"

definition process_contact_row ::
  "lib \<Rightarrow> row \<Rightarrow> config \<Rightarrow> args \<Rightarrow> index \<Rightarrow> index \<Rightarrow> store \<Rightarrow> string \<Rightarrow> nat
     \<Rightarrow> py_error + row_result" where
  \<comment> \<open>\<open>out_dir\<close> is the store as it is when the row is processed, \<open>utcnow\<close> the clock read by
      \<open>build_frontmatter\<close>, \<open>seq_counter\<close> the attribute \<open>process_contact_row.seq_counter\<close>\<close>
  "process_contact_row L row cfg a existing_by_id existing_by_email out_dir utcnow seq_counter =
     (let contact = build_contact L row cfg (arg_project a) in
      if \<not> (\<exists>k \<in> set (required_fields cfg). strip (str_or_empty (map_of contact k)) \<noteq> [])
      then Inr \<lparr>res_action = SKIPPED, res_target = None, res_md_text = None,
                res_contact = contact, res_seq_counter = seq_counter\<rparr>
      else
        (let src_ms_id = strip (str_or_empty (map_of contact ''id_mslist'')) in
         case (if arg_id_prefix a \<noteq> [] then compose_custom_id L a row src_ms_id seq_counter
               else Some (None, seq_counter)) of
           None \<Rightarrow> Inr \<lparr>res_action = SKIPPED, res_target = None, res_md_text = None,
                         res_contact = contact, res_seq_counter = seq_counter\<rparr>
         | Some (composed, seq_counter') \<Rightarrow>
             (let contact' =
                    (case composed of
                       Some c \<Rightarrow> if c \<noteq> [] then AList.update ''id_mslist'' (Str c) contact else contact
                     | None \<Rightarrow> contact)
              in case filename_base_of contact' of
                   Inl e \<Rightarrow> Inl e
                 | Inr (filename_base, contact'') \<Rightarrow>
                     (let target = match_existing a contact'' existing_by_id existing_by_email
                                     out_dir filename_base;
                          new_fm = build_frontmatter contact'' cfg utcnow
                      in case write_text_of out_dir target new_fm cfg of
                           (act, md_text) \<Rightarrow>
                             Inr \<lparr>res_action = act, res_target = Some target,
                                  res_md_text = Some md_text, res_contact = contact'',
                                  res_seq_counter = seq_counter'\<rparr>))))"

section \<open>Run\<close>

record run_state =
  run_store :: store
  run_seq_counter :: nat
  run_created :: nat
  run_updated :: nat
  run_skipped :: nat

definition record_result :: "args \<Rightarrow> row_result \<Rightarrow> run_state \<Rightarrow> run_state" where
  \<comment> \<open>the body of the loop of \<open>main\<close> after the call of \<open>process_contact_row\<close>\<close>
  "record_result a r st =
     (case res_action r of
        SKIPPED \<Rightarrow> st\<lparr>run_skipped := run_skipped st + 1, run_seq_counter := res_seq_counter r\<rparr>
      | act \<Rightarrow>
          (let st' = (if act = CREATED then st\<lparr>run_created := run_created st + 1\<rparr>
                      else st\<lparr>run_updated := run_updated st + 1\<rparr>)
           in st'\<lparr>run_seq_counter := res_seq_counter r,
                  run_store :=
                    (if arg_dry_run a then run_store st
                     else (case (res_target r, res_md_text r) of
                             (Some target, Some md_text) \<Rightarrow> AList.update target md_text (run_store st)
                           | _ \<Rightarrow> run_store st))\<rparr>))"

fun run_rows ::
  "lib \<Rightarrow> config \<Rightarrow> args \<Rightarrow> index \<Rightarrow> index \<Rightarrow> (nat \<Rightarrow> string) \<Rightarrow> nat \<Rightarrow> row list \<Rightarrow> run_state
     \<Rightarrow> py_error + run_state" where
  \<comment> \<open>\<open>for row in rows\<close>; \<open>clock i\<close> is the time read while row \<open>i\<close> is processed\<close>
  "run_rows L cfg a existing_by_id existing_by_email clock i [] st = Inr st"
| "run_rows L cfg a existing_by_id existing_by_email clock i (row # rows) st =
     (case process_contact_row L row cfg a existing_by_id existing_by_email
             (run_store st) (clock i) (run_seq_counter st) of
        Inl e \<Rightarrow> Inl e
      | Inr r \<Rightarrow>
          run_rows L cfg a existing_by_id existing_by_email clock (Suc i) rows (record_result a r st))"

definition main_run ::
  "lib \<Rightarrow> config \<Rightarrow> args \<Rightarrow> (nat \<Rightarrow> string) \<Rightarrow> row list \<Rightarrow> store \<Rightarrow> py_error + run_state" where
  \<comment> \<open>\<open>main\<close> from \<open>build_existing_indexes\<close> on: one run of the process over the rows read,
      on the store \<open>out_dir\<close>; the sequence counter of a process starts at 1\<close>
  "main_run L cfg a clock rows out_dir =
     (case build_existing_indexes out_dir of
        (existing_by_id, existing_by_email) \<Rightarrow>
          run_rows L cfg a existing_by_id existing_by_email clock 0 rows
            \<lparr>run_store = out_dir, run_seq_counter = 1, run_created = 0, run_updated = 0,
             run_skipped = 0\<rparr>)"

section \<open>Loading and validating the configuration\<close>

datatype json =
    JNull
  | JBool bool
  | JNumber int
  | JString string
  | JArray "json list"
  | JObject "(string \<times> json) list"









section \<open>Sample inputs\<close>

definition empty_config :: config where
  \<comment> \<open>the configuration \<open>{}\<close>\<close>
  "empty_config =
     \<lparr>cfg_aliases = [], cfg_extras = ExtrasOther, cfg_list_fields = [], cfg_boolean_fields = [],
      cfg_normalize_phone_fr = False, cfg_projects = [], cfg_preserve_keys = None,
      cfg_overwrite_keys = [], cfg_required_fields = None\<rparr>"

definition sco_args :: args where
  \<comment> \<open>\<open>--id-prefix SCO\<close>, every other option at its default\<close>
  "sco_args =
     \<lparr>arg_project = [], arg_id_key = ''id_mslist'', arg_id_prefix = ''SCO'', arg_id_pad = 3,
      arg_id_fallback = Seq, arg_dry_run = False\<rparr>"

definition plain_args :: args where
  \<comment> \<open>every option at its default: no prefix\<close>
  "plain_args =
     \<lparr>arg_project = [], arg_id_key = ''id_mslist'', arg_id_prefix = [], arg_id_pad = 3,
      arg_id_fallback = Seq, arg_dry_run = False\<rparr>"

definition no_json_lib :: lib where
  \<comment> \<open>for rows without a value in square brackets and runs without the hash fallback,
      where neither library function is called\<close>
  "no_json_lib = \<lparr>json_loads_list = (\<lambda>s. None), sha1_hexdigest = (\<lambda>s. [])\<rparr>"

definition two_notes :: store where
  \<comment> \<open>two documents; the text of the first ends with its closing delimiter\<close>
  "two_notes =
     [(''old.md'',
       ''---'' @ [CHR 0x0A] @ ''id_mslist: SCO-007'' @ [CHR 0x0A] @ ''Mail_Pro: a@b.fr'' @ [CHR 0x0A] @
       ''notes: mine'' @ [CHR 0x0A] @ ''---''),
      (''other.md'',
       ''---'' @ [CHR 0x0A] @ ''id_mslist: SCO-008'' @ [CHR 0x0A] @ ''Mail_Pro: c@d.fr'' @ [CHR 0x0A] @
       ''---'' @ [CHR 0x0A])]"

definition nom_key_args :: args where
  \<comment> \<open>\<open>--id-prefix SCO --id-key Nom\<close>\<close>
  "nom_key_args =
     \<lparr>arg_project = [], arg_id_key = ''Nom'', arg_id_prefix = ''SCO'', arg_id_pad = 3,
      arg_id_fallback = Seq, arg_dry_run = False\<rparr>"

definition fixed_clock :: "nat \<Rightarrow> string" where
  "fixed_clock i = ''2024-01-01T10:00:00''"

definition durand_row :: row where
  "durand_row = [(''id_mslist'', ''7''), (''Nom'', ''Durand'')]"

definition durand_contact :: contact where
  \<comment> \<open>the contact of \<^const>\<open>durand_row\<close> with the identity composed for the prefix \<open>SCO\<close>\<close>
  "durand_contact =
     [(''id_mslist'', Str ''SCO-007''), (''Nom'', Str ''Durand''),
      (''Pr'' @ [CHR 0xE9] @ ''nom'', Str []), (''Tel_Mobile'', Str []), (''Tel_Fixe'', Str []),
      (''Mail_Pro'', Str []), (''Mail_Perso'', Str []), (''organisation'', Str []),
      (''groupes'', Str []), (''type'', Str ''contact'')]"

definition durand_created :: "pyval dict" where
  \<comment> \<open>the metadata of a new document for \<^const>\<open>durand_contact\<close>\<close>
  "durand_created =
     [(''Nom'', Str ''Durand''), (''Pr'' @ [CHR 0xE9] @ ''nom'', Str []), (''Tel_Mobile'', Str []),
      (''Tel_Fixe'', Str []), (''Mail_Pro'', Str []), (''Mail_Perso'', Str []),
      (''organisation'', Str []), (''id_mslist'', Str ''SCO-007''), (''groupes'', Str []),
      (''type'', Str ''contact''), (''source_updated'', Str ''2024-01-01T10:00:00Z'')]"

definition hello_text :: string where
  \<comment> \<open>a document with the identity \<open>SCO-007\<close> and the line \<open>Hello\<close> under its metadata\<close>
  "hello_text = ''---\<newline>id_mslist: SCO-007\<newline>---\<newline>Hello\<newline>''"

definition hello_merged :: "pyval dict" where
  \<comment> \<open>the metadata of \<^const>\<open>hello_text\<close> merged with those of \<^const>\<open>durand_contact\<close>\<close>
  "hello_merged =
     [(''id_mslist'', Str ''SCO-007''), (''Nom'', Str ''Durand''),
      (''Pr'' @ [CHR 0xE9] @ ''nom'', Str []), (''Tel_Mobile'', Str []), (''Tel_Fixe'', Str []),
      (''Mail_Pro'', Str []), (''Mail_Perso'', Str []), (''organisation'', Str []),
      (''groupes'', Str []), (''type'', Str ''contact''),
      (''source_updated'', Str ''2024-01-01T10:00:00Z'')]"


section \<open>Properties of the codec\<close>

lemma partition_at_None:
  "sep \<noteq> [] \<Longrightarrow> (partition_at s sep = None) = (\<not> contains s sep)"
  by (induction s) (auto split: option.splits)

lemma partition_at_startswith:
  "startswith s sep \<Longrightarrow> s \<noteq> [] \<Longrightarrow> partition_at s sep = Some ([], drop (length sep) s)"
  by (cases s) simp_all

lemma split_two_unclosed:
  assumes "startswith t ''---''"
  shows "split_n t ''---'' 2 =
           (case partition_at (drop 3 t) ''---'' of
              None \<Rightarrow> [[], drop 3 t]
            | Some (a, b) \<Rightarrow> [[], a, b])"
proof -
  from assms have "t \<noteq> []" by (auto simp: startswith_def)
  with assms have "partition_at t ''---'' = Some ([], drop 3 t)"
    using partition_at_startswith [of t "''---''"] by (simp add: numeral_3_eq_3)
  then show ?thesis
    by (simp add: numeral_2_eq_2 split: option.splits)
qed

text \<open>
  C10.  A text that begins with the delimiter and has no second delimiter splits into fewer
  than three parts, and the decoder returns the empty metadata and the whole text as the
  body, as it does for every text that does not begin with the delimiter.
\<close>

theorem read_frontmatter_unclosed:
  assumes "startswith t ''---''"
  shows "(length (split_n t ''---'' 2) < 3) = (\<not> contains (drop 3 t) ''---'') \<and>
         (\<not> contains (drop 3 t) ''---'' \<longrightarrow> read_frontmatter t = ([], t)) \<and>
         (\<forall>u. \<not> startswith u ''---'' \<longrightarrow> read_frontmatter u = ([], u))"
proof -
  have none: "(partition_at (drop 3 t) ''---'' = None) = (\<not> contains (drop 3 t) ''---'')"
    by (rule partition_at_None) simp
  have parts: "(length (split_n t ''---'' 2) < 3) = (\<not> contains (drop 3 t) ''---'')"
    unfolding split_two_unclosed [OF assms] none [symmetric]
    by (simp split: option.splits)
  have body: "read_frontmatter t = ([], t)" if "\<not> contains (drop 3 t) ''---''"
  proof -
    from that none have "partition_at (drop 3 t) ''---'' = None" by simp
    then show ?thesis
      using assms by (simp add: read_frontmatter_def split_two_unclosed [OF assms])
  qed
  have plain: "read_frontmatter u = ([], u)" if "\<not> startswith u ''---''" for u
    using that by (simp add: read_frontmatter_def)
  from parts body plain show ?thesis by blast
qed

theorem read_frontmatter_unclosed_witness:
  "read_frontmatter ''---Nom: Durand'' = ([], ''---Nom: Durand'') \<and>
   length (split_n ''---Nom: Durand'' ''---'' 2) < 3"
proof -
  have s: "startswith ''---Nom: Durand'' ''---''"
    by (simp add: startswith_def)
  have c: "\<not> contains (drop 3 ''---Nom: Durand'') ''---''"
    by (simp add: startswith_def)
  from read_frontmatter_unclosed [OF s] c show ?thesis by blast
qed

text \<open>
  The encoder escapes a double quote inside a quoted scalar and the decoder removes the
  surrounding quotes only, so a value with a double quote comes back with a backslash
  before it.
\<close>

theorem roundtrip_counterexample:
  "read_frontmatter (dump_frontmatter [(''k'', Str [CHR ''a'', CHR 0x22, CHR ''b''])]) =
     ([(''k'', Str [CHR ''a'', CHR 0x5C, CHR 0x22, CHR ''b''])], [CHR 0x0A]) \<and>
   fst (read_frontmatter (dump_frontmatter [(''k'', Str [CHR ''a'', CHR 0x22, CHR ''b''])])) \<noteq>
     [(''k'', Str [CHR ''a'', CHR 0x22, CHR ''b''])]"
  by code_simp

section \<open>Properties of the configuration check\<close>




section \<open>Properties of the merge engine\<close>

lemma map_of_update_other:
  "k' \<noteq> k \<Longrightarrow> map_of (AList.update k' v d) k = map_of d k"
  by (simp add: update_conv')

lemma map_of_update_same:
  "map_of (AList.update k v d) k = Some v"
  by (simp add: update_conv')

lemma merge_step_other:
  "k' \<noteq> k \<Longrightarrow> map_of (merge_step existing P ov out (k', v)) k = map_of out k"
  by (simp add: merge_step_def map_of_update_other)

lemma merge_step_same:
  "map_of (merge_step existing P ov out (k, v)) k =
     (if k \<in> P \<and> has_key existing k then map_of out k
      else if k \<in> ov \<or> \<not> has_key existing k \<or> is_empty (map_of existing k) then Some v
      else map_of out k)"
  by (simp add: merge_step_def map_of_update_same)

lemma merge_loop_absent:
  "k \<notin> fst ` set nd \<Longrightarrow>
   map_of (foldl (merge_step existing P ov) out nd) k = map_of out k"
proof (induction nd arbitrary: out)
  case Nil
  then show ?case by simp
next
  case (Cons kv nd)
  obtain k' v' where kv: "kv = (k', v')" by (cases kv)
  from Cons.prems kv have ne: "k' \<noteq> k" and rest: "k \<notin> fst ` set nd" by auto
  show ?case
    using Cons.IH [OF rest, of "merge_step existing P ov out kv"]
    by (simp add: kv merge_step_other [OF ne])
qed

lemma merge_loop_present:
  "distinct (map fst nd) \<Longrightarrow> map_of nd k = Some v \<Longrightarrow>
   map_of (foldl (merge_step existing P ov) out nd) k =
     (if k \<in> P \<and> has_key existing k then map_of out k
      else if k \<in> ov \<or> \<not> has_key existing k \<or> is_empty (map_of existing k) then Some v
      else map_of out k)"
proof (induction nd arbitrary: out)
  case Nil
  then show ?case by simp
next
  case (Cons kv nd)
  obtain k' v' where kv: "kv = (k', v')" by (cases kv)
  show ?case
  proof (cases "k' = k")
    case True
    with Cons.prems kv have v: "v' = v" and absent: "k \<notin> fst ` set nd"
      by (auto simp: image_iff)
    show ?thesis
      using merge_loop_absent [OF absent, of existing P ov "merge_step existing P ov out kv"]
      by (simp add: kv True v merge_step_same)
  next
    case False
    with Cons.prems kv have d: "distinct (map fst nd)" and m: "map_of nd k = Some v"
      by auto
    show ?thesis
      using Cons.IH [OF d m, of "merge_step existing P ov out kv"]
      by (simp add: kv merge_step_other [OF False])
  qed
qed

lemma merge_loop_preserved:
  "k \<in> P \<Longrightarrow> has_key existing k \<Longrightarrow>
   map_of (foldl (merge_step existing P ov) out nd) k = map_of out k"
proof (induction nd arbitrary: out)
  case Nil
  then show ?case by simp
next
  case (Cons kv nd)
  obtain k' v' where kv: "kv = (k', v')" by (cases kv)
  have "map_of (merge_step existing P ov out kv) k = map_of out k"
    using Cons.prems by (cases "k' = k") (simp_all add: kv merge_step_other merge_step_same)
  with Cons.IH [OF Cons.prems, of "merge_step existing P ov out kv"] show ?case by simp
qed

text \<open>
  C3.  A key of \<open>preserve_keys\<close> that the existing metadata has keeps the existing value,
  whatever the incoming metadata holds for it and whether or not the key is also in
  \<open>overwrite_keys\<close>; and a key that only the existing metadata has is kept with its value.
\<close>

theorem merge_preserve_precedence:
  "(k \<in> P \<and> map_of existing k = Some ev \<longrightarrow>
      map_of (merge_frontmatter existing newdata P ov) k = Some ev) \<and>
   (k \<in> P \<and> k \<in> ov \<and> map_of existing k = Some ev \<and> map_of newdata k = Some nv \<and> nv \<noteq> ev \<longrightarrow>
      map_of (merge_frontmatter existing newdata P ov) k = Some ev) \<and>
   (map_of existing k = Some ev \<and> k \<notin> fst ` set newdata \<longrightarrow>
      map_of (merge_frontmatter existing newdata P ov) k = Some ev)"
proof -
  have a: "map_of (merge_frontmatter existing newdata P ov) k = Some ev"
    if "k \<in> P" "map_of existing k = Some ev"
    using that merge_loop_preserved [of k P existing ov existing newdata]
    by (simp add: merge_frontmatter_def has_key_def)
  have b: "map_of (merge_frontmatter existing newdata P ov) k = Some ev"
    if "map_of existing k = Some ev" "k \<notin> fst ` set newdata"
    using that merge_loop_absent [of k newdata existing P ov existing]
    by (simp add: merge_frontmatter_def)
  from a b show ?thesis by blast
qed

theorem merge_preserve_precedence_witness:
  "map_of (merge_frontmatter
      [(''notes'', Str ''mine''), (''id_mslist'', Str ''SCO-007''), (''tag'', Str ''x'')]
      [(''notes'', Str ''theirs''), (''id_mslist'', Str ''SCO-007'')]
      {''notes'', ''custom_tags''} {''notes'', ''id_mslist''}) ''notes'' = Some (Str ''mine'') \<and>
   map_of (merge_frontmatter
      [(''notes'', Str ''mine''), (''id_mslist'', Str ''SCO-007''), (''tag'', Str ''x'')]
      [(''notes'', Str ''theirs''), (''id_mslist'', Str ''SCO-007'')]
      {''notes'', ''custom_tags''} {''notes'', ''id_mslist''}) ''tag'' = Some (Str ''x'')"
  using
    merge_preserve_precedence [of "''notes''" "{''notes'', ''custom_tags''}"
      "[(''notes'', Str ''mine''), (''id_mslist'', Str ''SCO-007''), (''tag'', Str ''x'')]"
      "Str ''mine''" "[(''notes'', Str ''theirs''), (''id_mslist'', Str ''SCO-007'')]"
      "{''notes'', ''id_mslist''}" "Str ''theirs''"]
    merge_preserve_precedence [of "''tag''" "{''notes'', ''custom_tags''}"
      "[(''notes'', Str ''mine''), (''id_mslist'', Str ''SCO-007''), (''tag'', Str ''x'')]"
      "Str ''x''" "[(''notes'', Str ''theirs''), (''id_mslist'', Str ''SCO-007'')]"
      "{''notes'', ''id_mslist''}" "Str ''theirs''"]
  by simp

text \<open>
  C4.  For an incoming key that is neither in \<open>preserve_keys\<close> nor in \<open>overwrite_keys\<close>, the
  merged metadata holds the incoming value when the existing metadata lacks the key or holds
  an empty value for it (a blank string or an empty list), and the existing value otherwise.
\<close>

theorem merge_default_fill_only:
  assumes "distinct (map fst newdata)"
      and "map_of newdata k = Some v"
      and "k \<notin> P" and "k \<notin> ov"
  shows "map_of (merge_frontmatter existing newdata P ov) k =
           (if \<not> has_key existing k \<or> is_empty (map_of existing k) then Some v
            else map_of existing k)"
  using merge_loop_present [OF assms(1,2), of existing P ov existing] assms(3,4)
  by (simp add: merge_frontmatter_def)

theorem merge_default_fill_only_witness:
  "map_of (merge_frontmatter
      [(''ville'', Str ''Lyon''), (''role'', Str '' ''), (''tags'', Lst [])]
      [(''ville'', Str ''Paris''), (''role'', Str ''chef''), (''tags'', Lst [''a'']), (''age'', Str ''41'')]
      {''notes''} {''Nom''}) ''ville'' = Some (Str ''Lyon'') \<and>
   map_of (merge_frontmatter
      [(''ville'', Str ''Lyon''), (''role'', Str '' ''), (''tags'', Lst [])]
      [(''ville'', Str ''Paris''), (''role'', Str ''chef''), (''tags'', Lst [''a'']), (''age'', Str ''41'')]
      {''notes''} {''Nom''}) ''role'' = Some (Str ''chef'')"
  using
    merge_default_fill_only [of
      "[(''ville'', Str ''Paris''), (''role'', Str ''chef''), (''tags'', Lst [''a'']), (''age'', Str ''41'')]"
      "''ville''" "Str ''Paris''" "{''notes''}" "{''Nom''}"
      "[(''ville'', Str ''Lyon''), (''role'', Str '' ''), (''tags'', Lst [])]"]
    merge_default_fill_only [of
      "[(''ville'', Str ''Paris''), (''role'', Str ''chef''), (''tags'', Lst [''a'']), (''age'', Str ''41'')]"
      "''role''" "Str ''chef''" "{''notes''}" "{''Nom''}"
      "[(''ville'', Str ''Lyon''), (''role'', Str '' ''), (''tags'', Lst [])]"]
  by (simp add: has_key_def is_empty_def strip_def lstrip_def rstrip_def isspace_def)

section \<open>Properties of identity composition\<close>

lemma digit_val_lt: "ascii_digit c \<Longrightarrow> digit_val c < 10"
  by (auto simp: ascii_digit_def digit_val_def)

lemma digit_char_val: "ascii_digit c \<Longrightarrow> digit_char (digit_val c) = c"
  by (auto simp: ascii_digit_def digit_val_def digit_char_def)

lemma digit_val_zero: "ascii_digit c \<Longrightarrow> (digit_val c = 0) = (c = CHR ''0'')"
  by (auto simp: ascii_digit_def digit_val_def)

lemma ascii_digit_not_space: "ascii_digit c \<Longrightarrow> \<not> isspace c"
  by (auto simp: ascii_digit_def isspace_def)

lemma int_digits_all:
  "list_all ascii_digit cs \<Longrightarrow>
   int_digits acc cs = Some (foldl (\<lambda>a c. 10 * a + digit_val c) acc cs)"
  by (induction acc cs rule: int_digits.induct) simp_all

lemma py_int_digits:
  assumes "raw \<noteq> []" "list_all ascii_digit raw" "length raw \<le> int_max_str_digits"
  shows "py_int raw = Some (int (digits_value raw))"
proof -
  from assms obtain c cs where raw: "raw = c # cs" by (cases raw) auto
  with assms have c: "ascii_digit c" and cs: "list_all ascii_digit cs" by simp_all
  from c have ns: "c \<noteq> CHR ''+''" "c \<noteq> CHR ''-''" by (auto simp: ascii_digit_def)
  from assms(2) have "filter ascii_digit raw = raw" by (simp add: list_all_iff)
  with assms(3) have lim: "\<not> int_max_str_digits < length (filter ascii_digit raw)" by simp
  have "(case raw of
           [] \<Rightarrow> None
         | c # cs \<Rightarrow>
             if c = CHR ''+'' then map_option int (int_unsigned cs)
             else if c = CHR ''-'' then map_option (\<lambda>n. - int n) (int_unsigned cs)
             else map_option int (int_unsigned raw)) = Some (int (digits_value raw))"
    using ns c int_digits_all [OF cs, of "digit_val c"]
    by (simp add: raw int_unsigned_def digits_value_def)
  with lim show ?thesis by (simp only: py_int_def if_False)
qed

lemma show_nat_small: "n < 10 \<Longrightarrow> show_nat n = [digit_char n]"
  by (subst show_nat.simps) simp

lemma show_nat_step:
  "d < 10 \<Longrightarrow> show_nat (10 * v + d) = (if v = 0 then [digit_char d] else show_nat v @ [digit_char d])"
  by (subst show_nat.simps) simp

lemma digits_value_snoc: "digits_value (s @ [c]) = 10 * digits_value s + digit_val c"
  by (simp add: digits_value_def)

lemma digits_value_zero:
  "list_all ascii_digit s \<Longrightarrow> (digits_value s = 0) = (dropWhile (\<lambda>c. c = CHR ''0'') s = [])"
proof (induction s rule: rev_induct)
  case Nil
  then show ?case by (simp add: digits_value_def)
next
  case (snoc c s)
  then have c: "ascii_digit c" and s: "list_all ascii_digit s" by simp_all
  show ?case
    using snoc.IH [OF s] digit_val_zero [OF c]
    by (auto simp: digits_value_snoc dropWhile_append dropWhile_eq_Nil_conv)
qed

lemma show_nat_digits_value:
  "s \<noteq> [] \<Longrightarrow> list_all ascii_digit s \<Longrightarrow> show_nat (digits_value s) = canonical_digits s"
proof (induction s rule: rev_nonempty_induct)
  case (single c)
  then have c: "ascii_digit c" by simp
  show ?case
    using digit_val_lt [OF c] digit_char_val [OF c]
    by (auto simp: digits_value_def show_nat_small canonical_digits_def digit_val_def digit_char_def)
next
  case (snoc c s)
  then have c: "ascii_digit c" and s: "list_all ascii_digit s" by simp_all
  show ?case
  proof (cases "digits_value s = 0")
    case True
    with digits_value_zero [OF s] have z: "dropWhile (\<lambda>c. c = CHR ''0'') s = []" by simp
    then have all0: "\<forall>x \<in> set s. x = CHR ''0''" by (simp add: dropWhile_eq_Nil_conv)
    show ?thesis
      using True digit_val_lt [OF c] digit_char_val [OF c] all0
      by (auto simp: digits_value_snoc show_nat_small canonical_digits_def dropWhile_append
                     digit_val_def digit_char_def)
  next
    case False
    with digits_value_zero [OF s] have nz: "dropWhile (\<lambda>c. c = CHR ''0'') s \<noteq> []" by simp
    then have ex: "\<exists>x \<in> set s. x \<noteq> CHR ''0''" by (simp add: dropWhile_eq_Nil_conv)
    from snoc.IH [OF s] nz have ih: "show_nat (digits_value s) = dropWhile (\<lambda>c. c = CHR ''0'') s"
      by (auto simp: canonical_digits_def)
    from ex obtain x where x: "x \<in> set s" "\<not> (x = CHR ''0'')" by blast
    have app: "dropWhile (\<lambda>c. c = CHR ''0'') (s @ [c]) = dropWhile (\<lambda>c. c = CHR ''0'') s @ [c]"
      using x by (intro dropWhile_append1 [of x s "\<lambda>c. c = CHR ''0''"]) simp_all
    show ?thesis
      using False digit_val_lt [OF c] digit_char_val [OF c] ih nz
      by (simp add: digits_value_snoc show_nat_step canonical_digits_def app)
  qed
qed

lemma strip_digits: "s \<noteq> [] \<Longrightarrow> list_all ascii_digit s \<Longrightarrow> strip s = s"
proof -
  assume ne: "s \<noteq> []" and d: "list_all ascii_digit s"
  then have h: "\<not> isspace (hd s)" and l: "\<not> isspace (last s)"
    by (auto simp: list_all_iff intro!: ascii_digit_not_space)
  from ne l have "dropWhile isspace (rev s) = rev s"
    by (cases "rev s") (auto simp: last_rev hd_rev)
  moreover from ne h have "dropWhile isspace s = s" by (cases s) auto
  ultimately show ?thesis by (simp add: strip_def lstrip_def rstrip_def)
qed

lemma format_composed_id_digits:
  assumes "raw \<noteq> []" "list_all ascii_digit raw" "length raw \<le> int_max_str_digits" "0 \<le> pad"
  shows "format_composed_id prefix raw pad =
           (if make_id_prefix prefix = [] then zero_padded (nat pad) raw
            else make_id_prefix prefix @ ''-'' @ zero_padded (nat pad) raw)"
  using assms
  by (simp add: format_composed_id_def Let_def strip_digits py_int_digits zero_pad_def
                show_nat_digits_value zero_padded_def)

















section \<open>Properties of the hash fallback\<close>

lemma filter_key_singleton:
  "distinct (map fst l) \<Longrightarrow> k \<in> set l \<Longrightarrow> filter (\<lambda>x. fst k = fst x) l = [k]"
proof (induction l)
  case Nil
  then show ?case by simp
next
  case (Cons a l)
  show ?case
  proof (cases "k = a")
    case True
    from Cons.prems(1) have "\<forall>x \<in> set l. fst x \<noteq> fst a" by (auto simp: image_iff)
    then have "filter (\<lambda>x. fst a = fst x) l = []" by (auto simp: filter_empty_conv)
    with True show ?thesis by simp
  next
    case False
    with Cons.prems have k: "k \<in> set l" and d: "distinct (map fst l)" by auto
    from Cons.prems(1) k have "fst k \<noteq> fst a" by (auto simp: image_iff)
    with Cons.IH [OF d k] show ?thesis by simp
  qed
qed

lemma sort_key_permutation:
  assumes "mset xs = mset ys" and "distinct (map fst xs)"
  shows "sort_key fst xs = sort_key fst ys"
proof (rule properties_for_sort_key)
  show "mset (sort_key fst ys) = mset xs" using assms(1) by simp
  show "sorted (map fst (sort_key fst ys))" by simp
  fix k assume k: "k \<in> set (sort_key fst ys)"
  from assms(1) have "mset (map fst xs) = mset (map fst ys)" by (metis mset_map)
  with assms(2) have dy: "distinct (map fst ys)" by (metis mset_eq_imp_distinct_iff)
  have "mset (map fst (sort_key fst ys)) = mset (map fst ys)" by simp
  with dy have ds: "distinct (map fst (sort_key fst ys))" by (metis mset_eq_imp_distinct_iff)
  from k assms(1) have kx: "k \<in> set xs" by (metis mset_eq_setD set_sort)
  show "filter (\<lambda>x. fst k = fst x) (sort_key fst ys) = filter (\<lambda>x. fst k = fst x) xs"
    using filter_key_singleton [OF ds k] filter_key_singleton [OF assms(2) kx] by simp
qed

lemma json_dumps_order_independent:
  "mset row1 = mset row2 \<Longrightarrow> distinct (map fst row1) \<Longrightarrow>
   json_dumps_sorted row1 = json_dumps_sorted row2"
  by (simp add: json_dumps_sorted_def sort_key_permutation [of row1 row2])


lemma hash_fallback_composed:
  "\<not> isdigit src_ms_id \<Longrightarrow> arg_id_fallback a = Hash \<Longrightarrow>
   compose_custom_id L a row src_ms_id seq_counter =
     Some (Some (format_composed_id (arg_id_prefix a)
                   (take 8 (sha1_hexdigest L (json_dumps_sorted row))) (arg_id_pad a)),
           seq_counter)"
  by (simp add: compose_custom_id_def)

text \<open>
  C7.  The hash fallback passes the first eight characters of the digest through
  \<open>format_composed_id\<close>, which reads a token of decimal digits as a number.  The row below
  has no source id; the SHA-1 digest of its serialization with sorted keys begins with
  \<open>00692087\<close>, and the identity composed for it is \<open>SCO-692087\<close>: the prefix joined to six
  characters, not to the eight characters of the digest.
\<close>

theorem hash_identity_digits:
  "json_dumps_sorted [(''Nom'', ''Martin''), (''Mail_Pro'', ''contact268@example.org'')] =
     ''{'' @ json_string ''Mail_Pro'' @ '': '' @ json_string ''contact268@example.org'' @ '', '' @
       json_string ''Nom'' @ '': '' @ json_string ''Martin'' @ ''}'' \<and>
   compose_custom_id
     \<lparr>json_loads_list = (\<lambda>s. None),
      sha1_hexdigest = (\<lambda>s. ''006920876035b0d8099b81010afb8e64eb7419c8'')\<rparr>
     (sco_args\<lparr>arg_id_fallback := Hash\<rparr>)
     [(''Nom'', ''Martin''), (''Mail_Pro'', ''contact268@example.org'')] [] 1 =
     Some (Some ''SCO-692087'', 1)"
proof -
  have js: "json_dumps_sorted [(''Nom'', ''Martin''), (''Mail_Pro'', ''contact268@example.org'')] =
     ''{'' @ json_string ''Mail_Pro'' @ '': '' @ json_string ''contact268@example.org'' @ '', '' @
       json_string ''Nom'' @ '': '' @ json_string ''Martin'' @ ''}''"
    by code_simp
  have d: "''00692087'' \<noteq> [] \<and> list_all ascii_digit ''00692087'' \<and>
           length ''00692087'' \<le> int_max_str_digits"
    by (simp add: ascii_digit_def int_max_str_digits_def)
  have pfx: "make_id_prefix ''SCO'' = ''SCO''" by code_simp
  have zp: "zero_padded (nat 3) ''00692087'' = ''692087''" by code_simp
  have f: "format_composed_id ''SCO'' ''00692087'' 3 = ''SCO-692087''"
    using format_composed_id_digits [of "''00692087''" 3 "''SCO''"] d pfx zp by simp
  have "compose_custom_id
     \<lparr>json_loads_list = (\<lambda>s. None),
      sha1_hexdigest = (\<lambda>s. ''006920876035b0d8099b81010afb8e64eb7419c8'')\<rparr>
     (sco_args\<lparr>arg_id_fallback := Hash\<rparr>)
     [(''Nom'', ''Martin''), (''Mail_Pro'', ''contact268@example.org'')] [] 1 =
     Some (Some ''SCO-692087'', 1)"
    by (simp add: compose_custom_id_def isdigit_def sco_args_def f)
  with js show ?thesis by simp
qed

section \<open>Properties of the per-record pipeline\<close>

lemma fresh_target_free: "\<not> has_key out_dir (fresh_target out_dir base i)"
  by (induction out_dir base i rule: fresh_target.induct) (subst fresh_target.simps, simp)

lemma write_text_of_action:
  "fst (write_text_of out_dir target new_fm cfg) =
     (if has_key out_dir target then UPDATED else CREATED)"
  by (simp add: write_text_of_def has_key_def split: option.splits prod.splits)

lemma process_contact_row_result:
  assumes "process_contact_row L row cfg a by_id by_email out_dir utcnow seq = Inr r"
      and "res_action r \<noteq> SKIPPED"
  shows "\<exists>fb. res_target r = Some (match_existing a (res_contact r) by_id by_email out_dir fb) \<and>
              write_text_of out_dir (match_existing a (res_contact r) by_id by_email out_dir fb)
                 (build_frontmatter (res_contact r) cfg utcnow) cfg
                = (res_action r, the (res_md_text r)) \<and> res_md_text r \<noteq> None"
  using assms
  by (auto simp: process_contact_row_def Let_def
           split: if_splits option.splits sum.splits prod.splits)

lemma match_existing_new:
  "id_lookup a c by_id = None \<Longrightarrow> email_lookup c by_email = None \<Longrightarrow>
   \<not> has_key out_dir (match_existing a c by_id by_email out_dir fb)"
  by (simp add: match_existing_def fresh_target_free)

text \<open>
  What the matcher does with the value the contact has under the key \<open>--id-key\<close>: a
  document the identity index has for it is the target, whatever the email index holds;
  the email index decides only when the identity index has none; and when neither has a
  document the target is a name that is free in the store and the record is created.
\<close>

lemma matcher_precedence:
  assumes "process_contact_row L row cfg a by_id by_email out_dir utcnow seq = Inr r"
      and "res_action r \<noteq> SKIPPED"
  shows "(id_lookup a (res_contact r) by_id = Some doc \<longrightarrow> res_target r = Some doc) \<and>
         (id_lookup a (res_contact r) by_id = None \<and> email_lookup (res_contact r) by_email = Some doc
            \<longrightarrow> res_target r = Some doc) \<and>
         (id_lookup a (res_contact r) by_id = None \<and> email_lookup (res_contact r) by_email = None
            \<longrightarrow> res_action r = CREATED \<and> (\<exists>t. res_target r = Some t \<and> \<not> has_key out_dir t))"
proof -
  from process_contact_row_result [OF assms] obtain fb where
    t: "res_target r = Some (match_existing a (res_contact r) by_id by_email out_dir fb)" and
    w: "write_text_of out_dir (match_existing a (res_contact r) by_id by_email out_dir fb)
          (build_frontmatter (res_contact r) cfg utcnow) cfg = (res_action r, the (res_md_text r))"
    by blast
  from w have act: "res_action r =
      (if has_key out_dir (match_existing a (res_contact r) by_id by_email out_dir fb)
       then UPDATED else CREATED)"
    using write_text_of_action [of out_dir "match_existing a (res_contact r) by_id by_email out_dir fb"
        "build_frontmatter (res_contact r) cfg utcnow" cfg] by simp
  have one: "res_target r = Some doc" if "id_lookup a (res_contact r) by_id = Some doc"
    using that t by (simp add: match_existing_def)
  have two: "res_target r = Some doc"
    if "id_lookup a (res_contact r) by_id = None" "email_lookup (res_contact r) by_email = Some doc"
    using that t by (simp add: match_existing_def)
  have three: "res_action r = CREATED \<and> (\<exists>t. res_target r = Some t \<and> \<not> has_key out_dir t)"
    if "id_lookup a (res_contact r) by_id = None" "email_lookup (res_contact r) by_email = None"
    using match_existing_new [OF that, of out_dir fb] t act by simp
  from one two three show ?thesis by blast
qed

lemma two_notes_indexes:
  "build_existing_indexes two_notes =
     ([(''SCO-007'', ''old.md''), (''SCO-008'', ''other.md'')],
      [(''a@b.fr'', ''old.md''), (''c@d.fr'', ''other.md'')])"
  by code_simp

lemma nom_key_row:
  "process_contact_row no_json_lib durand_row empty_config nom_key_args
      [(''SCO-007'', ''old.md''), (''SCO-008'', ''other.md'')]
      [(''a@b.fr'', ''old.md''), (''c@d.fr'', ''other.md'')]
      two_notes (fixed_clock 0) 1 =
   Inr \<lparr>res_action = CREATED, res_target = Some ''DURAND.md'',
        res_md_text = Some (dump_frontmatter durand_created @ [CHR 0x0A]),
        res_contact = durand_contact, res_seq_counter = 1\<rparr>"
  by code_simp

text \<open>
  C5.  The identity index is built from the field \<open>id_mslist\<close> of the documents and the
  composed identity is stored in the field \<open>id_mslist\<close> of the contact, but the matcher looks
  up the field named by \<open>--id-key\<close>.  With \<open>--id-key Nom\<close> the row below gets the identity
  \<open>SCO-007\<close>, which the index has for \<open>old.md\<close>, and is not routed to it: the run creates
  \<open>DURAND.md\<close> with that identity and leaves \<open>old.md\<close> as it was.
\<close>

theorem identity_key_mismatch:
  "map_of (fst (build_existing_indexes two_notes)) ''SCO-007'' = Some ''old.md'' \<and>
   main_run no_json_lib empty_config nom_key_args fixed_clock [durand_row] two_notes =
     Inr \<lparr>run_store = two_notes @ [(''DURAND.md'', dump_frontmatter durand_created @ [CHR 0x0A])],
          run_seq_counter = 1, run_created = 1, run_updated = 0, run_skipped = 0\<rparr> \<and>
   map_of durand_created ''id_mslist'' = Some (Str ''SCO-007'')"
proof -
  have w: "AList.update ''DURAND.md'' t two_notes = two_notes @ [(''DURAND.md'', t)]" for t
    by (simp add: two_notes_def)
  have idf: "map_of durand_created ''id_mslist'' = Some (Str ''SCO-007'')"
    by (simp add: durand_created_def)
  have run: "main_run no_json_lib empty_config nom_key_args fixed_clock [durand_row] two_notes =
     Inr \<lparr>run_store = two_notes @ [(''DURAND.md'', dump_frontmatter durand_created @ [CHR 0x0A])],
          run_seq_counter = 1, run_created = 1, run_updated = 0, run_skipped = 0\<rparr>"
    using nom_key_row
    by (simp add: main_run_def two_notes_indexes record_result_def w nom_key_args_def)
  from run idf show ?thesis by (simp add: two_notes_indexes)
qed

lemma hello_indexes:
  "build_existing_indexes [(''note.md'', hello_text)] = ([(''SCO-007'', ''note.md'')], [])"
  by code_simp

lemma hello_row:
  "process_contact_row no_json_lib durand_row empty_config sco_args
      [(''SCO-007'', ''note.md'')] [] [(''note.md'', hello_text)] (fixed_clock 0) 1 =
   Inr \<lparr>res_action = UPDATED, res_target = Some ''note.md'',
        res_md_text = Some (dump_frontmatter hello_merged @ ''\<newline>Hello\<newline>''),
        res_contact = durand_contact, res_seq_counter = 1\<rparr>"
  by code_simp

lemma hello_decoded:
  "read_frontmatter hello_text = ([(''id_mslist'', Str ''SCO-007'')], ''\<newline>Hello\<newline>'')"
  by code_simp

lemma hello_updated_decoded:
  "snd (read_frontmatter (dump_frontmatter hello_merged @ ''\<newline>Hello\<newline>'')) =
     ''\<newline>\<newline>Hello\<newline>''"
  by code_simp

text \<open>
  C9.  The decoder counts the newline after the closing delimiter as the first character
  of the body, and the encoder ends its block with a newline of its own.  The body of the
  document below is a newline and the line \<open>Hello\<close>; the run updates the document, and the
  body of the text it writes has one more newline at its head.
\<close>

theorem update_body_grows:
  "read_frontmatter hello_text = ([(''id_mslist'', Str ''SCO-007'')], ''\<newline>Hello\<newline>'') \<and>
   main_run no_json_lib empty_config sco_args fixed_clock [durand_row] [(''note.md'', hello_text)] =
     Inr \<lparr>run_store = [(''note.md'', dump_frontmatter hello_merged @ ''\<newline>Hello\<newline>'')],
          run_seq_counter = 1, run_created = 0, run_updated = 1, run_skipped = 0\<rparr> \<and>
   snd (read_frontmatter (dump_frontmatter hello_merged @ ''\<newline>Hello\<newline>'')) =
     ''\<newline>\<newline>Hello\<newline>''"
proof -
  have run: "main_run no_json_lib empty_config sco_args fixed_clock [durand_row] [(''note.md'', hello_text)] =
     Inr \<lparr>run_store = [(''note.md'', dump_frontmatter hello_merged @ ''\<newline>Hello\<newline>'')],
          run_seq_counter = 1, run_created = 0, run_updated = 1, run_skipped = 0\<rparr>"
    using hello_row
    by (simp add: main_run_def hello_indexes record_result_def sco_args_def)
  from run hello_decoded hello_updated_decoded show ?thesis by simp
qed

end
